theory Spec2Isabelle
  imports Complex_Main "HOL-Library.Sublist" "HOL-Library.Word" "HOL-Library.Log_Nat"
begin

section \<open>Data model\<close>

text \<open>
  The pipeline passes transcripts around as Python dictionaries. A segment, as built by
  the transcriber, always carries \<open>start\<close>, \<open>end\<close> and \<open>text\<close>; the prompt formatter
  reads \<open>start_formatted\<close> with a fallback, so that key is optional here. Times are
  seconds; every finite double is a rational number, so they are modelled as \<open>rat\<close>.

  A transcript dictionary is read with \<open>.get(key, default)\<close> throughout the note
  generator, so each of its keys is optional. The same dictionary shape serves for the
  chunks made by \<open>_create_chunk_transcript\<close>, which carry \<open>start_time\<close> and \<open>end_time\<close>.
\<close>

record segment =
  seg_start :: rat
  seg_end :: rat
  seg_text :: string
  start_formatted :: "string option"

record transcript =
  t_text :: "string option"
  t_segments :: "segment list option"
  start_time :: "rat option"
  end_time :: "rat option"

definition get_text :: "transcript \<Rightarrow> string" where
  \<comment> \<open>\<open>transcript.get('text', '')\<close>\<close>
  "get_text t = (case t_text t of None \<Rightarrow> [] | Some s \<Rightarrow> s)"

definition get_segments :: "transcript \<Rightarrow> segment list" where
  \<comment> \<open>\<open>transcript.get('segments', [])\<close>\<close>
  "get_segments t = (case t_segments t of None \<Rightarrow> [] | Some ss \<Rightarrow> ss)"

definition get_start_time :: "transcript \<Rightarrow> rat" where
  \<comment> \<open>\<open>chunk.get('start_time', 0)\<close>\<close>
  "get_start_time t = (case start_time t of None \<Rightarrow> 0 | Some x \<Rightarrow> x)"

definition get_end_time :: "transcript \<Rightarrow> rat" where
  \<comment> \<open>\<open>chunk.get('end_time', 0)\<close>\<close>
  "get_end_time t = (case end_time t of None \<Rightarrow> 0 | Some x \<Rightarrow> x)"

section \<open>Strings\<close>

text \<open>
  Python's \<open>sep.join(parts)\<close>.
\<close>

fun join :: "string \<Rightarrow> string list \<Rightarrow> string" where
  "join sep [] = []"
| "join sep [x] = x"
| "join sep (x # y # ys) = x @ sep @ join sep (y # ys)"

text \<open>
  \<open>str.isspace\<close> on the code points below 256: the ASCII white space, the four
  separator controls, NEL and the no-break space.
\<close>

definition is_space :: "char \<Rightarrow> bool" where
  "is_space c = ((of_char c :: nat) \<in> {9, 10, 11, 12, 13, 28, 29, 30, 31, 32, 133, 160})"

text \<open>
  \<open>text.split()\<close> with no argument: the maximal runs of non-space characters. The first
  argument of \<open>split_acc\<close> is the word being read.
\<close>

fun split_acc :: "string \<Rightarrow> string \<Rightarrow> string list" where
  "split_acc w [] = (if w = [] then [] else [w])"
| "split_acc w (c # cs) =
     (if is_space c then (if w = [] then split_acc [] cs else w # split_acc [] cs)
      else split_acc (w @ [c]) cs)"

definition str_split :: "string \<Rightarrow> string list" where
  "str_split s = split_acc [] s"

section \<open>Token estimate\<close>

text \<open>
  \<open>_estimate_tokens\<close> is \<open>int(len(text.split()) * 1.3)\<close>: the product is a float and
  \<open>int\<close> truncates it toward zero. The product is taken exactly here, as \<open>13/10\<close> times
  the count. The machine multiplies the count by the double nearest to 1.3 and rounds the
  product to a double; \<open>double_product\<close> below is that value, and for every count below
  \<open>2\<^sup>4\<^sup>9\<close> it truncates to the same integer as the exact product
  (\<open>estimate_tokens_double\<close>).
\<close>

definition estimate_tokens :: "string \<Rightarrow> int" where
  "estimate_tokens text = \<lfloor>of_nat (length (str_split text)) * (13 / 10 :: rat)\<rfloor>"

text \<open>
  The double \<open>n * 1.3\<close> for a count \<open>n\<close> below \<open>2\<^sup>5\<^sup>3\<close>: the double nearest to 1.3 is
  \<open>5854679515581645 / 2\<^sup>5\<^sup>2\<close>; the exact product \<open>x\<close>, which is 0 or at least 1, is rounded
  to 53 significant bits, a tie going to the even neighbour.
\<close>

definition round_half_even :: "rat \<Rightarrow> int" where
  "round_half_even x =
     (let f = \<lfloor>x\<rfloor>; d = x - of_int f
      in if d < 1 / 2 then f else if 1 / 2 < d then f + 1 else if even f then f else f + 1)"

definition double_1_3 :: rat where
  "double_1_3 = 5854679515581645 / 2 ^ 52"

definition double_product :: "nat \<Rightarrow> rat" where
  "double_product n =
     (if n = 0 then 0
      else let x = of_nat n * double_1_3;
               e = bitlen \<lfloor>x\<rfloor> - 1;
               ulp = 2 ^ nat e / 2 ^ 52
           in of_int (round_half_even (x / ulp)) * ulp)"

section \<open>Transcript chunker\<close>

definition create_chunk_transcript :: "segment list \<Rightarrow> transcript" where
  "create_chunk_transcript segs =
     \<lparr> t_text = Some (join '' '' (map seg_text segs)),
       t_segments = Some segs,
       start_time = Some (if segs \<noteq> [] then seg_start (hd segs) else 0),
       end_time = Some (if segs \<noteq> [] then seg_end (last segs) else 0) \<rparr>"

text \<open>
  The \<open>for segment in segments\<close> loop of \<open>_chunk_transcript\<close>, on the state
  \<open>(chunks, current_chunk_segments, current_token_count)\<close>.
\<close>

type_synonym chunk_state = "transcript list \<times> segment list \<times> int"

definition chunk_step :: "int \<Rightarrow> chunk_state \<Rightarrow> segment \<Rightarrow> chunk_state" where
  "chunk_step chunk_size st segment =
     (case st of (chunks, current, count) \<Rightarrow>
        let segment_tokens = estimate_tokens (seg_text segment);
            (chunks', current', count') =
              (if count + segment_tokens > chunk_size \<and> current \<noteq> []
               then (chunks @ [create_chunk_transcript current], [], 0)
               else (chunks, current, count))
        in (chunks', current' @ [segment], count' + segment_tokens))"

fun chunk_loop :: "int \<Rightarrow> segment list \<Rightarrow> chunk_state \<Rightarrow> chunk_state" where
  "chunk_loop chunk_size [] st = st"
| "chunk_loop chunk_size (segment # rest) st =
     chunk_loop chunk_size rest (chunk_step chunk_size st segment)"

definition chunk_transcript :: "int \<Rightarrow> transcript \<Rightarrow> transcript list" where
  "chunk_transcript chunk_size t =
     (let segments = get_segments t in
      if segments = [] then [t]
      else (case chunk_loop chunk_size segments ([], [], 0) of
              (chunks, current, count) \<Rightarrow>
                if current \<noteq> [] then chunks @ [create_chunk_transcript current]
                else chunks))"

text \<open>
  The running token estimate of a list of segments: the sum of their estimates.
\<close>

definition tokens_of :: "segment list \<Rightarrow> int" where
  "tokens_of segs = sum_list (map (\<lambda>s. estimate_tokens (seg_text s)) segs)"

section \<open>Prompt formatter\<close>

text \<open>
  \<open>str(n)\<close> for a natural number, and the format \<open>{i:02d}\<close>: the decimal digits,
  zero-padded to width two, a sign counting as part of the width.
\<close>

definition digit_char :: "nat \<Rightarrow> char" where
  "digit_char d = ''0123456789'' ! d"

fun str_nat :: "nat \<Rightarrow> string" where
  "str_nat n = (if n < 10 then [digit_char n] else str_nat (n div 10) @ [digit_char (n mod 10)])"

declare str_nat.simps [simp del]

definition zfill :: "nat \<Rightarrow> string \<Rightarrow> string" where
  "zfill w s = replicate (w - length s) (CHR ''0'') @ s"

definition fmt_02d :: "int \<Rightarrow> string" where
  "fmt_02d i = (if i < 0 then CHR ''-'' # zfill 1 (str_nat (nat (- i))) else zfill 2 (str_nat (nat i)))"

text \<open>
  Python's \<open>x % y\<close> on floats, for a positive \<open>y\<close>: the remainder of the floor division.
\<close>

definition py_mod :: "rat \<Rightarrow> rat \<Rightarrow> rat" where
  "py_mod x y = x - of_int \<lfloor>x / y\<rfloor> * y"

definition format_timestamp :: "rat \<Rightarrow> string" where
  "format_timestamp seconds =
     (let hours = \<lfloor>seconds / 3600\<rfloor>;
          minutes = \<lfloor>py_mod seconds 3600 / 60\<rfloor>;
          secs = \<lfloor>py_mod seconds 60\<rfloor>
      in if hours > 0
         then fmt_02d hours @ '':'' @ fmt_02d minutes @ '':'' @ fmt_02d secs
         else fmt_02d minutes @ '':'' @ fmt_02d secs)"

definition format_segment :: "segment \<Rightarrow> string" where
  "format_segment seg =
     (let timestamp = (case start_formatted seg of
                         Some f \<Rightarrow> f
                       | None \<Rightarrow> format_timestamp (seg_start seg))
      in ''['' @ timestamp @ ''] '' @ seg_text seg)"

definition format_transcript_for_prompt :: "transcript \<Rightarrow> string" where
  "format_transcript_for_prompt t =
     (let segments = get_segments t in
      if segments = [] then get_text t
      else join ''\<newline>'' (map format_segment segments))"

text \<open>
  The three prompt templates. Each has one placeholder, so \<open>TEMPLATE.format(x)\<close> is the
  text before the placeholder, \<open>x\<close>, and the text after it.
\<close>

definition NOTE_PROMPT_TEMPLATE :: "string \<Rightarrow> string" where
  "NOTE_PROMPT_TEMPLATE transcript =
     ''You are an expert educational note-taker. Given a lecture transcript with timestamps, create comprehensive study notes in Markdown format.\<newline>'' @
     ''\<newline>'' @
     ''## Instructions:\<newline>'' @
     ''1. **Title**: Derive a clear, descriptive title from the content\<newline>'' @
     ''2. **Summary**: Write a 2-3 sentence overview of the main topic\<newline>'' @
     ''3. **Key Concepts**: Extract the most important concepts as bullet points with brief definitions\<newline>'' @
     ''4. **Detailed Notes**: Organize content by topic with section headers. Include timestamps [MM:SS] for key points\<newline>'' @
     ''5. **Action Items**: Create 3-5 study questions or exercises based on the content\<newline>'' @
     ''\<newline>'' @
     ''## Formatting Guidelines:\<newline>'' @
     ''- Use proper Markdown headers (##, ###)\<newline>'' @
     ''- Keep bullet points concise\<newline>'' @
     ''- Include timestamps for important concepts so students can review the video\<newline>'' @
     ''- Bold key terms\<newline>'' @
     ''- Use code blocks for any technical content or formulas\<newline>'' @
     ''\<newline>'' @
     ''## Transcript:\<newline>'' @
     transcript @
     ''\<newline>'' @
     ''\<newline>'' @
     ''---\<newline>'' @
     ''Now generate the study notes:''"

definition CHUNK_SUMMARY_PROMPT :: "string \<Rightarrow> string" where
  "CHUNK_SUMMARY_PROMPT transcript =
     ''Summarize this section of a lecture transcript into key points and notes.\<newline>'' @
     ''Include timestamps [MM:SS] for important topics mentioned.\<newline>'' @
     ''\<newline>'' @
     ''Transcript section:\<newline>'' @
     transcript @
     ''\<newline>'' @
     ''\<newline>'' @
     ''Provide a structured summary with:\<newline>'' @
     ''- Main topics covered\<newline>'' @
     ''- Key definitions or concepts\<newline>'' @
     ''- Important details with timestamps''"

definition MERGE_NOTES_PROMPT :: "string \<Rightarrow> string" where
  "MERGE_NOTES_PROMPT section_notes =
     ''You are merging notes from different sections of the same lecture into a cohesive document.\<newline>'' @
     ''\<newline>'' @
     ''Combine these section notes into a single, well-organized study document:\<newline>'' @
     ''\<newline>'' @
     section_notes @
     ''\<newline>'' @
     ''\<newline>'' @
     ''Create a unified document with:\<newline>'' @
     ''1. **Title** - A descriptive title for the entire lecture\<newline>'' @
     ''2. **Summary** - 2-3 sentence overview of all topics\<newline>'' @
     ''3. **Table of Contents** - List major sections with timestamps\<newline>'' @
     ''4. **Key Concepts** - Combined list of important terms/definitions\<newline>'' @
     ''5. **Detailed Notes** - Merged, organized by topic with timestamps\<newline>'' @
     ''6. **Action Items** - 3-5 study questions covering the full lecture\<newline>'' @
     ''\<newline>'' @
     ''Ensure smooth transitions and remove any redundancy.''"

section \<open>Generation backend\<close>

text \<open>
  The Ollama client is an external service. On a run it is described by what it answers:
  the model listing, and the reply to a generation call, which may depend on the calls
  made before it. Every operation may raise; \<open>BackendError\<close> stands for any exception of
  the client, carrying its text. A reply is a dictionary read with
  \<open>.get('response', '')\<close>; a streamed reply is the list of its fragments, and a stream
  that raises midway is a raised call, since its fragments are then dropped.

  A listed model is an object or dictionary with a \<open>model\<close> or a \<open>name\<close> key.
\<close>

datatype error = BackendError string | RuntimeError string | FileNotFoundError string

fun error_str :: "error \<Rightarrow> string" where
  "error_str (BackendError m) = m"
| "error_str (RuntimeError m) = m"
| "error_str (FileNotFoundError m) = m"

record model_entry =
  entry_model :: "string option"
  entry_name :: "string option"

type_synonym response = "string option"

datatype call = List_models | Generate string string bool

record backend =
  list_models :: "error + model_entry list"
  generate :: "call list \<Rightarrow> string \<Rightarrow> error + response"
  generate_stream :: "call list \<Rightarrow> string \<Rightarrow> error + response list"

text \<open>
  What a run leaves behind: the calls made to the backend (\<open>Generate model prompt stream\<close>
  for a generation call), and the messages given to \<open>print_error\<close>. Other console output
  is not recorded.
\<close>

record run_state =
  calls :: "call list"
  printed_errors :: "string list"

record note_generator =
  model :: string
  chunk_size :: int
  client :: backend

definition response_get :: "response \<Rightarrow> string" where
  \<comment> \<open>\<open>response.get('response', '')\<close>\<close>
  "response_get r = (case r of None \<Rightarrow> [] | Some s \<Rightarrow> s)"

definition print_error :: "string \<Rightarrow> run_state \<Rightarrow> run_state" where
  "print_error message st = st\<lparr>printed_errors := printed_errors st @ [message]\<rparr>"

definition record_call :: "call \<Rightarrow> run_state \<Rightarrow> run_state" where
  "record_call c st = st\<lparr>calls := calls st @ [c]\<rparr>"

subsection \<open>Model availability\<close>

definition truthy :: "string option \<Rightarrow> bool" where
  "truthy v = (case v of None \<Rightarrow> False | Some s \<Rightarrow> s \<noteq> [])"

definition entry_to_name :: "model_entry \<Rightarrow> string option" where
  \<comment> \<open>the first truthy one of the entry's \<open>model\<close> and \<open>name\<close>\<close>
  "entry_to_name m = (if truthy (entry_model m) then entry_model m else entry_name m)"

definition model_names :: "model_entry list \<Rightarrow> string list" where
  "model_names models =
     concat (map (\<lambda>m. case entry_to_name m of
                          None \<Rightarrow> []
                        | Some name \<Rightarrow> if name \<noteq> [] then [name] else []) models)"

definition base_name :: "string \<Rightarrow> string" where
  \<comment> \<open>\<open>model.split(':')[0]\<close>\<close>
  "base_name m = takeWhile (\<lambda>c. c \<noteq> CHR '':'') m"

definition name_matches :: "string \<Rightarrow> string list \<Rightarrow> bool" where
  "name_matches m names =
     (if m \<in> set names then True
      else list_ex (\<lambda>name. prefix (base_name m) name) names)"

definition check_model_available :: "note_generator \<Rightarrow> run_state \<Rightarrow> run_state \<times> bool" where
  "check_model_available g st =
     (let st1 = record_call List_models st in
      case list_models (client g) of
        Inl e \<Rightarrow> (print_error (''Could not connect to Ollama: '' @ error_str e) st1, False)
      | Inr models \<Rightarrow> (st1, name_matches (model g) (model_names models)))"

subsection \<open>Generation calls\<close>

definition client_generate :: "note_generator \<Rightarrow> string \<Rightarrow> run_state \<Rightarrow> run_state \<times> (error + string)" where
  "client_generate g prompt st =
     (let st1 = record_call (Generate (model g) prompt False) st in
      case generate (client g) (calls st) prompt of
        Inl e \<Rightarrow> (st1, Inl e)
      | Inr r \<Rightarrow> (st1, Inr (response_get r)))"

definition stream_generate :: "note_generator \<Rightarrow> string \<Rightarrow> run_state \<Rightarrow> run_state \<times> (error + string)" where
  "stream_generate g prompt st =
     (let st1 = record_call (Generate (model g) prompt True) st in
      case generate_stream (client g) (calls st) prompt of
        Inl e \<Rightarrow> (print_error (''Generation error: '' @ error_str e) st1, Inl e)
      | Inr fragments \<Rightarrow> (st1, Inr (concat (map response_get fragments))))"

section \<open>Note orchestrator\<close>

definition generate_single :: "note_generator \<Rightarrow> transcript \<Rightarrow> bool \<Rightarrow> run_state \<Rightarrow> run_state \<times> (error + string)" where
  "generate_single g t stream_output st =
     (let formatted_transcript = format_transcript_for_prompt t;
          prompt = NOTE_PROMPT_TEMPLATE formatted_transcript
      in if stream_output then stream_generate g prompt st
         else client_generate g prompt st)"

definition section_note :: "nat \<Rightarrow> transcript \<Rightarrow> string \<Rightarrow> string" where
  \<comment> \<open>the labelled output of chunk \<open>i\<close> (counted from 0)\<close>
  "section_note i chunk response =
     ''## Section '' @ str_nat (i + 1) @ '' ['' @ format_timestamp (get_start_time chunk) @
     '' - '' @ format_timestamp (get_end_time chunk) @ '']\<newline>\<newline>'' @ response"

text \<open>
  The loop \<open>for i, chunk in enumerate(chunks)\<close> of \<open>_generate_chunked\<close>, on the index,
  the chunks still to do and \<open>section_notes\<close>. An exception of the backend leaves the loop.
\<close>

fun summarize_chunks ::
  "note_generator \<Rightarrow> nat \<Rightarrow> transcript list \<Rightarrow> string list \<Rightarrow> run_state \<Rightarrow> run_state \<times> (error + string list)" where
  "summarize_chunks g i [] section_notes st = (st, Inr section_notes)"
| "summarize_chunks g i (chunk # rest) section_notes st =
     (let formatted = format_transcript_for_prompt chunk;
          prompt = CHUNK_SUMMARY_PROMPT formatted
      in case client_generate g prompt st of
           (st1, Inl e) \<Rightarrow> (st1, Inl e)
         | (st1, Inr response) \<Rightarrow>
             summarize_chunks g (i + 1) rest (section_notes @ [section_note i chunk response]) st1)"

definition generate_chunked :: "note_generator \<Rightarrow> transcript \<Rightarrow> bool \<Rightarrow> run_state \<Rightarrow> run_state \<times> (error + string)" where
  "generate_chunked g t stream_output st =
     (let chunks = chunk_transcript (chunk_size g) t in
      case summarize_chunks g 0 chunks [] st of
        (st1, Inl e) \<Rightarrow> (st1, Inl e)
      | (st1, Inr section_notes) \<Rightarrow>
          let merged_sections = join ''\<newline>\<newline>---\<newline>\<newline>'' section_notes;
              merge_prompt = MERGE_NOTES_PROMPT merged_sections
          in if stream_output then stream_generate g merge_prompt st1
             else client_generate g merge_prompt st1)"

definition model_not_found :: "string \<Rightarrow> error" where
  "model_not_found m =
     RuntimeError (''Model '' @ [CHR 0x27] @ m @ [CHR 0x27] @ '' not found. Run: ollama pull '' @ m)"

definition generate_notes :: "note_generator \<Rightarrow> transcript \<Rightarrow> bool \<Rightarrow> run_state \<Rightarrow> run_state \<times> (error + string)" where
  "generate_notes g t stream_output st =
     (case check_model_available g st of
        (st1, False) \<Rightarrow> (st1, Inl (model_not_found (model g)))
      | (st1, True) \<Rightarrow>
          let total_tokens = estimate_tokens (get_text t) in
          if total_tokens > chunk_size g then generate_chunked g t stream_output st1
          else generate_single g t stream_output st1)"

text \<open>
  The chunk-summary call made for a chunk, and the text the backend answers to it after
  the calls \<open>hist\<close>.
\<close>

definition chunk_call :: "note_generator \<Rightarrow> transcript \<Rightarrow> call" where
  "chunk_call g chunk =
     Generate (model g) (CHUNK_SUMMARY_PROMPT (format_transcript_for_prompt chunk)) False"

definition chunk_reply :: "note_generator \<Rightarrow> call list \<Rightarrow> transcript \<Rightarrow> string" where
  "chunk_reply g hist chunk =
     (case generate (client g) hist (CHUNK_SUMMARY_PROMPT (format_transcript_for_prompt chunk)) of
        Inl e \<Rightarrow> []
      | Inr r \<Rightarrow> response_get r)"

text \<open>
  The exception the backend raises for a call made after the calls \<open>hist\<close>, if any; and
  what it means for a stretch of a run, from \<open>st\<close> to \<open>st'\<close> with result \<open>r\<close>, to surface
  the backend's errors: the calls only grow, and an exception raised for any call of the
  stretch is the result.
\<close>

fun raised :: "backend \<Rightarrow> call list \<Rightarrow> call \<Rightarrow> error option" where
  "raised be hist List_models = (case list_models be of Inl e \<Rightarrow> Some e | Inr ms \<Rightarrow> None)"
| "raised be hist (Generate m p False) =
     (case generate be hist p of Inl e \<Rightarrow> Some e | Inr r \<Rightarrow> None)"
| "raised be hist (Generate m p True) =
     (case generate_stream be hist p of Inl e \<Rightarrow> Some e | Inr r \<Rightarrow> None)"

definition surfaces :: "backend \<Rightarrow> run_state \<Rightarrow> run_state \<Rightarrow> error + 'a \<Rightarrow> bool" where
  "surfaces be st st' r =
     (prefix (calls st) (calls st') \<and>
      (\<forall>k e. length (calls st) \<le> k \<longrightarrow> k < length (calls st') \<longrightarrow>
         raised be (take k (calls st')) (calls st' ! k) = Some e \<longrightarrow> r = Inl e))"

subsection \<open>Loop invariant of the chunker\<close>

text \<open>
  Every closed chunk was built by \<open>_create_chunk_transcript\<close> from a non-empty list, and
  the counter is the estimate of the current chunk.
\<close>

definition closed_ok :: "transcript list \<Rightarrow> bool" where
  "closed_ok chunks =
     (\<forall>c \<in> set chunks. \<exists>segs. segs \<noteq> [] \<and> c = create_chunk_transcript segs)"

definition state_ok :: "chunk_state \<Rightarrow> bool" where
  "state_ok st = (case st of (chunks, cur, cnt) \<Rightarrow> closed_ok chunks \<and> cnt = tokens_of cur)"

section \<open>File fingerprint\<close>

text \<open>
  \<open>get_file_hash\<close> reads the file's status and its first MiB, renders the three values
  into one string with an f-string, and keeps the first 12 hexadecimal digits of the MD5
  digest of that string. The f-string renders the bytes object by its \<open>repr\<close>, the size
  in decimal and the modification time by the \<open>repr\<close> of a float. A byte is a \<open>char\<close>.

  MD5 (\<open>hashlib\<close>) and the decimal rendering of a float are not code of this repository:
  they are parameters, \<open>md5\<close> giving the 128-bit digest of a string and \<open>float_str\<close> the
  text of a float. The rendered string is ASCII, so encoding it changes nothing.
\<close>

type_synonym bytes = "char list"

definition hex_digit :: "nat \<Rightarrow> char" where
  "hex_digit d = ''0123456789abcdef'' ! d"

definition repr_quote :: "bytes \<Rightarrow> char" where
  \<comment> \<open>a double quote when the bytes hold a single quote and no double quote\<close>
  "repr_quote bs = (if CHR 0x27 \<in> set bs \<and> CHR 0x22 \<notin> set bs then CHR 0x22 else CHR 0x27)"

definition repr_byte :: "char \<Rightarrow> char \<Rightarrow> string" where
  "repr_byte quote c =
     (if c = quote \<or> c = CHR 0x5C then [CHR 0x5C, c]
      else if c = CHR 0x09 then [CHR 0x5C, CHR ''t'']
      else if c = CHR 0x0A then [CHR 0x5C, CHR ''n'']
      else if c = CHR 0x0D then [CHR 0x5C, CHR ''r'']
      else if (of_char c :: nat) < 32 \<or> 127 \<le> (of_char c :: nat)
        then [CHR 0x5C, CHR ''x'', hex_digit (of_char c div 16), hex_digit (of_char c mod 16)]
      else [c])"

definition bytes_repr :: "bytes \<Rightarrow> string" where
  "bytes_repr bs =
     (let quote = repr_quote bs
      in [CHR ''b'', quote] @ concat (map (repr_byte quote) bs) @ [quote])"

record file_stat =
  content :: bytes
  st_size :: nat
  st_mtime :: rat

definition hash_input :: "(rat \<Rightarrow> string) \<Rightarrow> file_stat \<Rightarrow> string" where
  "hash_input float_str f =
     (let first_chunk = take (1024 * 1024) (content f)
      in bytes_repr first_chunk @ str_nat (st_size f) @ float_str (st_mtime f))"

definition hexdigest :: "128 word \<Rightarrow> string" where
  \<comment> \<open>the 32 hexadecimal digits of a digest, most significant first\<close>
  "hexdigest w = map (\<lambda>i. hex_digit (unat (drop_bit (4 * (31 - i)) w) mod 16)) [0..<32]"

definition get_file_hash ::
  "(string \<Rightarrow> 128 word) \<Rightarrow> (rat \<Rightarrow> string) \<Rightarrow> (string \<rightharpoonup> file_stat) \<Rightarrow> string \<Rightarrow> error + string" where
  "get_file_hash md5 float_str fs file_path =
     (case fs file_path of
        None \<Rightarrow> Inl (FileNotFoundError file_path)
      | Some f \<Rightarrow> Inr (take 12 (hexdigest (md5 (hash_input float_str f)))))"

section \<open>The specification's token estimate\<close>

text \<open>
  The specification gives the estimate as \<open>round(word_count(text) * 1.3)\<close>. This is that
  formula, to be compared with \<open>estimate_tokens\<close>.
\<close>

definition spec_estimated_tokens :: "string \<Rightarrow> int" where
  "spec_estimated_tokens text = round (of_nat (length (str_split text)) * (13 / 10 :: rat))"

section \<open>Example data\<close>

text \<open>
  A lecture of three segments (3, 2 and 4 words, estimated at 3, 2 and 5 tokens) and a
  backend that answers every call, used to run the definitions on concrete input.
\<close>

definition seg1 :: segment where
  "seg1 = \<lparr> seg_start = 0, seg_end = 4, seg_text = ''one two three'',
            start_formatted = Some ''00:00'' \<rparr>"

definition seg2 :: segment where
  "seg2 = \<lparr> seg_start = 4, seg_end = 15 / 2, seg_text = ''four five'',
            start_formatted = Some ''00:04'' \<rparr>"

definition seg3 :: segment where
  "seg3 = \<lparr> seg_start = 8, seg_end = 3700, seg_text = ''six seven eight nine'',
            start_formatted = None \<rparr>"

definition lecture :: transcript where
  "lecture = \<lparr> t_text = Some ''one two three four five six seven eight nine'',
               t_segments = Some [seg1, seg2, seg3], start_time = None, end_time = None \<rparr>"

definition echo_backend :: backend where
  "echo_backend =
     \<lparr> list_models = Inr [\<lparr>entry_model = Some ''llama3.2:3b'', entry_name = None\<rparr>],
       generate = (\<lambda>hist prompt. Inr (Some (''reply '' @ str_nat (length hist)))),
       generate_stream = (\<lambda>hist prompt. Inr [Some ''streamed '', None, Some ''reply'']) \<rparr>"

definition example_generator :: note_generator where
  "example_generator = \<lparr> model = ''llama3.2:3b'', chunk_size = 5, client = echo_backend \<rparr>"

definition st0 :: run_state where
  "st0 = \<lparr> calls = [], printed_errors = [] \<rparr>"

text \<open>
  The same generator with the budget at the lecture's own estimate; a backend that cannot
  be reached; one that is up without the model; one that has a longer-named model only.
\<close>

definition generator11 :: note_generator where
  "generator11 = example_generator\<lparr>chunk_size := 11\<rparr>"

definition down_generator :: note_generator where
  "down_generator =
     example_generator\<lparr>client := echo_backend\<lparr>list_models := Inl (BackendError ''Connection refused'')\<rparr>\<rparr>"

definition mistral_generator :: note_generator where
  "mistral_generator =
     example_generator\<lparr>client := echo_backend\<lparr>list_models :=
       Inr [\<lparr>entry_model = Some ''mistral:7b'', entry_name = None\<rparr>]\<rparr>\<rparr>"

definition untagged_generator :: note_generator where
  "untagged_generator =
     example_generator\<lparr>client := echo_backend\<lparr>list_models :=
       Inr [\<lparr>entry_model = None, entry_name = Some ''llama3.2''\<rparr>]\<rparr>\<rparr>"

definition llama3_generator :: note_generator where
  "llama3_generator = example_generator\<lparr>model := ''llama3''\<rparr>"

definition crashing_generator :: note_generator where
  "crashing_generator =
     example_generator\<lparr>client := echo_backend\<lparr>generate :=
       (\<lambda>hist prompt. if length hist = 2 then Inl (BackendError ''model runner crashed'')
                      else Inr (Some ''ok''))\<rparr>\<rparr>"

definition zero_md5 :: "string \<Rightarrow> 128 word" where
  "zero_md5 s = 0"

definition plain_float_str :: "rat \<Rightarrow> string" where
  "plain_float_str x = str_nat (nat \<lfloor>x\<rfloor>) @ ''.0''"

definition video :: file_stat where
  "video = \<lparr> content = ''abc'', st_size = 3, st_mtime = 1700000000 \<rparr>"

section \<open>Evaluating the examples\<close>

lemma get_segments_create [simp]: "get_segments (create_chunk_transcript segs) = segs"
  by (simp add: get_segments_def create_chunk_transcript_def)

lemma est1: "estimate_tokens (seg_text seg1) = 3"
  by code_simp

lemma est2: "estimate_tokens (seg_text seg2) = 2"
  by code_simp

lemma est3: "estimate_tokens (seg_text seg3) = 5"
  by code_simp

lemma est_lecture: "estimate_tokens (get_text lecture) = 11"
  by code_simp

lemma wc3: "length (str_split ''one two three'') = 3" by code_simp

lemma lecture_segments: "get_segments lecture = [seg1, seg2, seg3]"
  by (simp add: lecture_def get_segments_def)

lemma lecture_chunks:
  "chunk_transcript 5 lecture =
     [create_chunk_transcript [seg1, seg2], create_chunk_transcript [seg3]]"
  by (simp add: chunk_transcript_def lecture_segments chunk_step_def Let_def est1 est2 est3)

lemma lecture_chunks11:
  "chunk_transcript 11 lecture = [create_chunk_transcript [seg1, seg2, seg3]]"
  by (simp add: chunk_transcript_def lecture_segments chunk_step_def Let_def est1 est2 est3)

lemma ts0: "format_timestamp 0 = ''00:00''"
  by code_simp

lemma ts1: "format_timestamp (15 / 2) = ''00:07''"
  by code_simp

lemma ts2: "format_timestamp 8 = ''00:08''"
  by code_simp

lemma ts3: "format_timestamp 3700 = ''01:01:40''"
  by code_simp

lemma sn1: "str_nat (Suc 0) = ''1''"
  by code_simp

lemma sn2: "str_nat (Suc (Suc 0)) = ''2''"
  by code_simp

lemma fmt1:
  "format_transcript_for_prompt (create_chunk_transcript [seg1, seg2]) =
     ''[00:00] one two three\<newline>[00:04] four five''"
  by (simp add: format_transcript_for_prompt_def format_segment_def get_segments_def
        create_chunk_transcript_def seg1_def seg2_def)

lemma fmt2:
  "format_transcript_for_prompt (create_chunk_transcript [seg3]) =
     ''[00:08] six seven eight nine''"
  by (simp add: format_transcript_for_prompt_def format_segment_def get_segments_def
        create_chunk_transcript_def seg3_def ts2)

lemma fmt_whole:
  "format_transcript_for_prompt (create_chunk_transcript [seg1, seg2, seg3]) =
     ''[00:00] one two three\<newline>[00:04] four five\<newline>[00:08] six seven eight nine''"
  by (simp add: format_transcript_for_prompt_def format_segment_def
        seg1_def seg2_def seg3_def ts2)

lemma fmt_lecture:
  "format_transcript_for_prompt lecture =
     ''[00:00] one two three\<newline>[00:04] four five\<newline>[00:08] six seven eight nine''"
  by (simp add: format_transcript_for_prompt_def lecture_segments format_segment_def
        seg1_def seg2_def seg3_def ts2)

lemma chunk_times:
  "get_start_time (create_chunk_transcript [seg1, seg2]) = 0"
  "get_end_time (create_chunk_transcript [seg1, seg2]) = 15 / 2"
  "get_start_time (create_chunk_transcript [seg3]) = 8"
  "get_end_time (create_chunk_transcript [seg3]) = 3700"
  by (simp_all add: get_start_time_def get_end_time_def create_chunk_transcript_def
        seg1_def seg2_def seg3_def)

lemma whole_times:
  "get_start_time (create_chunk_transcript [seg1, seg2, seg3]) = 0"
  "get_end_time (create_chunk_transcript [seg1, seg2, seg3]) = 3700"
  by (simp_all add: get_start_time_def get_end_time_def create_chunk_transcript_def
        seg1_def seg3_def)

lemma example_fields:
  "model example_generator = ''llama3.2:3b''" "chunk_size example_generator = 5"
  "client example_generator = echo_backend"
  "model generator11 = ''llama3.2:3b''" "chunk_size generator11 = 11"
  "client generator11 = echo_backend"
  by (simp_all add: example_generator_def generator11_def)

lemma echo_fields:
  "list_models echo_backend = Inr [\<lparr>entry_model = Some ''llama3.2:3b'', entry_name = None\<rparr>]"
  "generate echo_backend hist prompt = Inr (Some (''reply '' @ str_nat (length hist)))"
  "generate_stream echo_backend hist prompt = Inr [Some ''streamed '', None, Some ''reply'']"
  by (simp_all add: echo_backend_def)

lemma more_fields:
  "model down_generator = ''llama3.2:3b''"
  "list_models (client down_generator) = Inl (BackendError ''Connection refused'')"
  "model mistral_generator = ''llama3.2:3b''"
  "list_models (client mistral_generator) = Inr [\<lparr>entry_model = Some ''mistral:7b'', entry_name = None\<rparr>]"
  "model untagged_generator = ''llama3.2:3b''"
  "list_models (client untagged_generator) = Inr [\<lparr>entry_model = None, entry_name = Some ''llama3.2''\<rparr>]"
  "model llama3_generator = ''llama3''"
  "list_models (client llama3_generator) = Inr [\<lparr>entry_model = Some ''llama3.2:3b'', entry_name = None\<rparr>]"
  by (simp_all add: down_generator_def mistral_generator_def untagged_generator_def
        llama3_generator_def example_generator_def echo_backend_def)

lemma crashing_fields:
  "model crashing_generator = ''llama3.2:3b''" "chunk_size crashing_generator = 5"
  "list_models (client crashing_generator) = Inr [\<lparr>entry_model = Some ''llama3.2:3b'', entry_name = None\<rparr>]"
  "generate (client crashing_generator) hist prompt =
     (if length hist = 2 then Inl (BackendError ''model runner crashed'') else Inr (Some ''ok''))"
  by (simp_all add: crashing_generator_def example_generator_def echo_backend_def)

lemma names_example:
  "model_names [\<lparr>entry_model = Some ''llama3.2:3b'', entry_name = None\<rparr>] = [''llama3.2:3b'']"
  "model_names [\<lparr>entry_model = Some ''mistral:7b'', entry_name = None\<rparr>] = [''mistral:7b'']"
  "model_names [\<lparr>entry_model = None, entry_name = Some ''llama3.2''\<rparr>] = [''llama3.2'']"
  by (simp_all add: model_names_def entry_to_name_def truthy_def)

lemma base_llama: "base_name ''llama3.2:3b'' = ''llama3.2''"
  by (simp add: base_name_def)

lemma base_llama3: "base_name ''llama3'' = ''llama3''"
  by (simp add: base_name_def)

lemma matches_examples:
  "name_matches ''llama3.2:3b'' [''llama3.2:3b'']"
  "name_matches ''llama3.2:3b'' [''llama3.2'']"
  "\<not> name_matches ''llama3.2:3b'' [''mistral:7b'']"
  "name_matches ''llama3'' [''llama3.2:3b'']"
  by (simp_all add: name_matches_def base_llama base_llama3)

lemma check_example:
  "check_model_available example_generator st = (record_call List_models st, True)"
  by (simp add: check_model_available_def example_fields echo_fields Let_def
        names_example matches_examples)

lemma check_generator11:
  "check_model_available generator11 st = (record_call List_models st, True)"
  by (simp add: check_model_available_def example_fields echo_fields Let_def
        names_example matches_examples)

lemma example_chunked_run:
  "generate_chunked example_generator lecture True st0 =
     (\<lparr> calls =
          [Generate ''llama3.2:3b''
             (CHUNK_SUMMARY_PROMPT ''[00:00] one two three\<newline>[00:04] four five'') False,
           Generate ''llama3.2:3b''
             (CHUNK_SUMMARY_PROMPT ''[00:08] six seven eight nine'') False,
           Generate ''llama3.2:3b''
             (MERGE_NOTES_PROMPT
                ''## Section 1 [00:00 - 00:07]\<newline>\<newline>reply 0\<newline>\<newline>---\<newline>\<newline>## Section 2 [00:08 - 01:01:40]\<newline>\<newline>reply 1'')
             True],
         printed_errors = [] \<rparr>,
      Inr ''streamed reply'')"
  by (simp add: generate_chunked_def example_generator_def lecture_chunks Let_def fmt1 fmt2
        client_generate_def stream_generate_def record_call_def echo_backend_def st0_def
        response_get_def section_note_def chunk_times ts0 ts1 ts2 ts3 sn1 sn2
        str_nat.simps [of 0] str_nat.simps [of "Suc 0"] digit_char_def)

lemma single_run11:
  "generate_notes generator11 lecture True st0 =
     (\<lparr> calls = [List_models,
                 Generate ''llama3.2:3b''
                   (NOTE_PROMPT_TEMPLATE
                      ''[00:00] one two three\<newline>[00:04] four five\<newline>[00:08] six seven eight nine'')
                   True],
         printed_errors = [] \<rparr>, Inr ''streamed reply'')"
  by (simp add: generate_notes_def check_generator11 est_lecture generate_single_def Let_def
        fmt_lecture stream_generate_def record_call_def st0_def response_get_def
        example_fields echo_fields)

lemma chunked_run11:
  "generate_chunked generator11 lecture True (record_call List_models st0) =
     (\<lparr> calls = [List_models,
                 Generate ''llama3.2:3b''
                   (CHUNK_SUMMARY_PROMPT
                      ''[00:00] one two three\<newline>[00:04] four five\<newline>[00:08] six seven eight nine'')
                   False,
                 Generate ''llama3.2:3b''
                   (MERGE_NOTES_PROMPT ''## Section 1 [00:00 - 01:01:40]\<newline>\<newline>reply 1'')
                   True],
         printed_errors = [] \<rparr>, Inr ''streamed reply'')"
  by (simp add: generate_chunked_def example_fields echo_fields lecture_chunks11 Let_def fmt_whole
        client_generate_def stream_generate_def record_call_def st0_def
        response_get_def section_note_def whole_times ts0 ts3 sn1)

lemma down_run:
  "generate_notes down_generator lecture True st0 =
     (\<lparr> calls = [List_models],
         printed_errors = [''Could not connect to Ollama: Connection refused''] \<rparr>,
      Inl (model_not_found ''llama3.2:3b''))"
  by (simp add: generate_notes_def check_model_available_def more_fields Let_def
        record_call_def print_error_def st0_def)

lemma mistral_run:
  "generate_notes mistral_generator lecture True st0 =
     (\<lparr> calls = [List_models], printed_errors = [] \<rparr>,
      Inl (model_not_found ''llama3.2:3b''))"
  by (simp add: generate_notes_def check_model_available_def more_fields Let_def
        record_call_def st0_def names_example matches_examples)

lemma crashing_calls:
  "calls (fst (generate_notes crashing_generator lecture True st0)) =
     [List_models,
      Generate ''llama3.2:3b''
        (CHUNK_SUMMARY_PROMPT ''[00:00] one two three\<newline>[00:04] four five'') False,
      Generate ''llama3.2:3b''
        (CHUNK_SUMMARY_PROMPT ''[00:08] six seven eight nine'') False]"
  by (simp add: generate_notes_def check_model_available_def crashing_fields Let_def
        names_example matches_examples est_lecture generate_chunked_def lecture_chunks
        client_generate_def record_call_def st0_def fmt1 fmt2 response_get_def)

lemma hexdigest_zero: "take 12 (hexdigest 0) = ''000000000000''"
proof -
  have "hex_digit 0 = CHR ''0''"
    by (simp add: hex_digit_def)
  then have "hexdigest 0 = replicate 32 (CHR ''0'')"
    by (simp add: hexdigest_def map_replicate_const)
  moreover have "replicate 12 (CHR ''0'') = ''000000000000''"
    by code_simp
  ultimately show ?thesis by simp
qed

section \<open>The chunker\<close>

lemma chunk_loop_append:
  "chunk_loop budget (xs @ ys) st = chunk_loop budget ys (chunk_loop budget xs st)"
  by (induction xs arbitrary: st) simp_all

lemma chunk_loop_snoc:
  "chunk_loop budget (xs @ [s]) st = chunk_step budget (chunk_loop budget xs st) s"
  by (simp add: chunk_loop_append)

subsection \<open>Coverage\<close>

lemma chunk_step_segments:
  "chunk_step budget (chunks, cur, cnt) s = (chunks', cur', cnt') \<Longrightarrow>
   concat (map get_segments chunks') @ cur' = concat (map get_segments chunks) @ cur @ [s]"
  by (auto simp: chunk_step_def Let_def split: if_splits)

lemma chunk_loop_segments:
  "chunk_loop budget segs (chunks, cur, cnt) = (chunks', cur', cnt') \<Longrightarrow>
   concat (map get_segments chunks') @ cur' = concat (map get_segments chunks) @ cur @ segs"
proof (induction segs arbitrary: chunks cur cnt)
  case Nil
  then show ?case by simp
next
  case (Cons s segs)
  obtain c1 u1 n1 where st: "chunk_step budget (chunks, cur, cnt) s = (c1, u1, n1)"
    by (cases "chunk_step budget (chunks, cur, cnt) s") auto
  from Cons.prems st have "chunk_loop budget segs (c1, u1, n1) = (chunks', cur', cnt')"
    by simp
  from Cons.IH [OF this] chunk_step_segments [OF st] show ?case by simp
qed

text \<open>
  Claim C1. Concatenating the segment lists of the chunks returned by the chunker, in
  chunk order, gives back the transcript's segment sequence: nothing dropped, nothing
  duplicated, order unchanged. It holds for every transcript and every budget, so also
  for those with at least one segment and a positive budget.
\<close>

theorem chunk_coverage:
  "concat (map get_segments (chunk_transcript budget t)) = get_segments t"
proof (cases "get_segments t = []")
  case True
  then show ?thesis by (simp add: chunk_transcript_def)
next
  case False
  obtain chunks cur cnt
    where st: "chunk_loop budget (get_segments t) ([], [], 0) = (chunks, cur, cnt)"
    by (cases "chunk_loop budget (get_segments t) ([], [], 0)") auto
  from chunk_loop_segments [OF st]
  have "concat (map get_segments chunks) @ cur = get_segments t"
    by simp
  with False st show ?thesis
    by (auto simp: chunk_transcript_def Let_def)
qed

subsection \<open>Loop invariant\<close>

lemma state_ok_init: "state_ok ([], [], 0)"
  by (simp add: state_ok_def closed_ok_def tokens_of_def)

lemma state_ok_step: "state_ok st \<Longrightarrow> state_ok (chunk_step budget st s)"
  by (cases st) (auto simp: state_ok_def closed_ok_def chunk_step_def Let_def tokens_of_def)

lemma state_ok_loop: "state_ok st \<Longrightarrow> state_ok (chunk_loop budget segs st)"
  by (induction segs arbitrary: st) (simp_all add: state_ok_step)

lemma step_current_nonempty: "fst (snd (chunk_step budget st s)) \<noteq> []"
  by (cases st) (auto simp: chunk_step_def Let_def)

lemma loop_current_nonempty:
  "segs \<noteq> [] \<Longrightarrow> fst (snd (chunk_loop budget segs st)) \<noteq> []"
proof (induction segs arbitrary: st rule: rev_induct)
  case Nil
  then show ?case by simp
next
  case (snoc s segs)
  show ?case by (simp add: chunk_loop_snoc step_current_nonempty)
qed

lemma chunk_transcript_created:
  assumes "get_segments t \<noteq> []" and "c \<in> set (chunk_transcript budget t)"
  shows "\<exists>segs. segs \<noteq> [] \<and> c = create_chunk_transcript segs"
proof -
  obtain chunks cur cnt
    where st: "chunk_loop budget (get_segments t) ([], [], 0) = (chunks, cur, cnt)"
    by (cases "chunk_loop budget (get_segments t) ([], [], 0)") auto
  have "state_ok (chunks, cur, cnt)"
    using state_ok_loop [OF state_ok_init, of budget "get_segments t"] st by simp
  then have ok: "closed_ok chunks"
    by (simp add: state_ok_def)
  have ne: "cur \<noteq> []"
    using loop_current_nonempty [OF assms(1), of budget "([], [], 0)"] st by simp
  from assms st ne have "c \<in> set chunks \<or> c = create_chunk_transcript cur"
    by (auto simp: chunk_transcript_def Let_def)
  with ok ne show ?thesis
    by (auto simp: closed_ok_def)
qed

subsection \<open>When a chunk is closed\<close>

text \<open>
  Claim C5. Let the loop have read the segments \<open>pre\<close> and stand in the state
  \<open>(chunks, current, count)\<close>. Then \<open>count\<close> is the running estimate of the current
  chunk, which is empty only before the first segment, and reading the next segment \<open>s\<close>
  closes the current chunk and starts a new one with \<open>s\<close> exactly when
  \<open>count + estimate s\<close> is strictly above the budget and the current chunk is not empty;
  otherwise (so also when the sum equals the budget) \<open>s\<close> joins the current chunk. In the
  chunker's result: a transcript of the segments \<open>pre\<close> ends with the current chunk, and
  one of \<open>pre\<close> followed by \<open>s\<close> has \<open>s\<close> in a chunk of its own after it in the first
  case, and at the end of it in the second.
\<close>

theorem chunker_split_iff:
  assumes "chunk_loop budget pre ([], [], 0) = (chunks, current, count)"
  shows "count = tokens_of current \<and>
         (current = [] \<longleftrightarrow> pre = []) \<and>
         chunk_loop budget (pre @ [s]) ([], [], 0) =
           (if count + estimate_tokens (seg_text s) > budget \<and> current \<noteq> []
            then (chunks @ [create_chunk_transcript current], [s], estimate_tokens (seg_text s))
            else (chunks, current @ [s], count + estimate_tokens (seg_text s))) \<and>
         (get_segments t = pre \<and> pre \<noteq> [] \<longrightarrow>
            chunk_transcript budget t = chunks @ [create_chunk_transcript current]) \<and>
         (get_segments t' = pre @ [s] \<longrightarrow>
            chunk_transcript budget t' =
              (if count + estimate_tokens (seg_text s) > budget \<and> current \<noteq> []
               then chunks @ [create_chunk_transcript current, create_chunk_transcript [s]]
               else chunks @ [create_chunk_transcript (current @ [s])]))"
proof (intro conjI impI)
  have "state_ok (chunks, current, count)"
    using state_ok_loop [OF state_ok_init, of budget pre] assms by simp
  then show "count = tokens_of current"
    by (simp add: state_ok_def)
  show ne: "current = [] \<longleftrightarrow> pre = []"
  proof
    assume "current = []"
    with loop_current_nonempty [of pre budget "([], [], 0)"] assms show "pre = []"
      by auto
  next
    assume "pre = []"
    with assms show "current = []" by simp
  qed
  show step: "chunk_loop budget (pre @ [s]) ([], [], 0) =
           (if count + estimate_tokens (seg_text s) > budget \<and> current \<noteq> []
            then (chunks @ [create_chunk_transcript current], [s], estimate_tokens (seg_text s))
            else (chunks, current @ [s], count + estimate_tokens (seg_text s)))"
    by (simp add: chunk_loop_snoc assms chunk_step_def Let_def)
  {
    assume "get_segments t = pre \<and> pre \<noteq> []"
    with assms ne show "chunk_transcript budget t = chunks @ [create_chunk_transcript current]"
      by (simp add: chunk_transcript_def Let_def)
  }
  {
    assume "get_segments t' = pre @ [s]"
    with step show "chunk_transcript budget t' =
              (if count + estimate_tokens (seg_text s) > budget \<and> current \<noteq> []
               then chunks @ [create_chunk_transcript current, create_chunk_transcript [s]]
               else chunks @ [create_chunk_transcript (current @ [s])])"
      by (simp add: chunk_transcript_def Let_def)
  }
qed

theorem chunker_split_iff_witness:
  "chunk_loop 5 [seg1, seg2] ([], [], 0) = ([], [seg1, seg2], 5) \<and>
   5 = tokens_of [seg1, seg2] \<and>
   chunk_loop 5 ([seg1, seg2] @ [seg3]) ([], [], 0) =
     ([create_chunk_transcript [seg1, seg2]], [seg3], 5) \<and>
   chunk_transcript 5 (lecture\<lparr>t_segments := Some [seg1, seg2]\<rparr>) =
     [create_chunk_transcript [seg1, seg2]] \<and>
   chunk_transcript 5 lecture =
     [create_chunk_transcript [seg1, seg2], create_chunk_transcript [seg3]]"
proof -
  have h: "chunk_loop 5 [seg1, seg2] ([], [], 0) = ([], [seg1, seg2], 5)"
    by (simp add: chunk_step_def Let_def est1 est2)
  have s1: "get_segments (lecture\<lparr>t_segments := Some [seg1, seg2]\<rparr>) = [seg1, seg2]"
    by (simp add: get_segments_def)
  have s2: "get_segments lecture = [seg1, seg2] @ [seg3]"
    by (simp add: lecture_segments)
  from chunker_split_iff [OF h, of seg3 "lecture\<lparr>t_segments := Some [seg1, seg2]\<rparr>" lecture]
    h s1 s2
  show ?thesis
    by (simp add: est3)
qed

subsection \<open>Totality\<close>

text \<open>
  Claim C6. The chunker is a total function of the transcript and the budget. With at
  least one segment it returns at least one chunk and no chunk without segments; a single
  segment estimated above the budget gives exactly one chunk holding it; with no segment
  the transcript itself comes back as the only element.
\<close>

theorem chunker_total:
  "(get_segments t \<noteq> [] \<longrightarrow>
      chunk_transcript budget t \<noteq> [] \<and>
      (\<forall>c \<in> set (chunk_transcript budget t). get_segments c \<noteq> [])) \<and>
   (get_segments t = [s] \<longrightarrow> budget < estimate_tokens (seg_text s) \<longrightarrow>
      chunk_transcript budget t = [create_chunk_transcript [s]]) \<and>
   (get_segments t = [] \<longrightarrow> chunk_transcript budget t = [t])"
proof (intro conjI impI)
  assume ne: "get_segments t \<noteq> []"
  obtain chunks cur cnt
    where st: "chunk_loop budget (get_segments t) ([], [], 0) = (chunks, cur, cnt)"
    by (cases "chunk_loop budget (get_segments t) ([], [], 0)") auto
  have "cur \<noteq> []"
    using loop_current_nonempty [OF ne, of budget "([], [], 0)"] st by simp
  with ne st show "chunk_transcript budget t \<noteq> []"
    by (simp add: chunk_transcript_def Let_def)
  show "\<forall>c \<in> set (chunk_transcript budget t). get_segments c \<noteq> []"
  proof
    fix c assume "c \<in> set (chunk_transcript budget t)"
    from chunk_transcript_created [OF ne this] show "get_segments c \<noteq> []" by auto
  qed
next
  assume "get_segments t = [s]"
  then show "chunk_transcript budget t = [create_chunk_transcript [s]]"
    by (simp add: chunk_transcript_def chunk_step_def Let_def)
next
  assume "get_segments t = []"
  then show "chunk_transcript budget t = [t]"
    by (simp add: chunk_transcript_def)
qed

theorem chunker_total_witness:
  "chunk_transcript 5 lecture \<noteq> [] \<and>
   get_segments (create_chunk_transcript [seg1, seg2]) \<noteq> [] \<and>
   get_segments (create_chunk_transcript [seg3]) \<noteq> [] \<and>
   chunk_transcript 4 (lecture\<lparr>t_segments := Some [seg3]\<rparr>) = [create_chunk_transcript [seg3]] \<and>
   chunk_transcript 4 (lecture\<lparr>t_segments := Some []\<rparr>) = [lecture\<lparr>t_segments := Some []\<rparr>]"
proof -
  have h1: "get_segments lecture \<noteq> []"
    by (simp add: lecture_segments)
  have h2: "get_segments (lecture\<lparr>t_segments := Some [seg3]\<rparr>) = [seg3]"
    by (simp add: get_segments_def)
  have h3: "4 < estimate_tokens (seg_text seg3)"
    by (simp add: est3)
  have h4: "get_segments (lecture\<lparr>t_segments := Some []\<rparr>) = []"
    by (simp add: get_segments_def)
  from chunker_total [where t = lecture and budget = 5] h1
  have "chunk_transcript 5 lecture \<noteq> [] \<and>
      (\<forall>c \<in> set (chunk_transcript 5 lecture). get_segments c \<noteq> [])"
    by blast
  then have a: "chunk_transcript 5 lecture \<noteq> [] \<and>
      get_segments (create_chunk_transcript [seg1, seg2]) \<noteq> [] \<and>
      get_segments (create_chunk_transcript [seg3]) \<noteq> []"
    by (simp add: lecture_chunks)
  from chunker_total [where t = "lecture\<lparr>t_segments := Some [seg3]\<rparr>" and s = seg3 and budget = 4]
    h2 h3
  have b: "chunk_transcript 4 (lecture\<lparr>t_segments := Some [seg3]\<rparr>) =
      [create_chunk_transcript [seg3]]"
    by blast
  from chunker_total [where t = "lecture\<lparr>t_segments := Some []\<rparr>" and budget = 4] h4
  have c: "chunk_transcript 4 (lecture\<lparr>t_segments := Some []\<rparr>) =
      [lecture\<lparr>t_segments := Some []\<rparr>]"
    by blast
  from a b c show ?thesis by blast
qed

subsection \<open>Fields of a chunk\<close>

text \<open>
  Claim C10. Every chunk the chunker makes from a non-empty segment list has segments,
  its text is their texts joined by single spaces in order, its start time is the start of
  its first segment and its end time is the end of its last segment.
\<close>

theorem chunk_fields:
  assumes "get_segments t \<noteq> []" and "c \<in> set (chunk_transcript budget t)"
  shows "get_segments c \<noteq> [] \<and>
         t_text c = Some (join '' '' (map seg_text (get_segments c))) \<and>
         start_time c = Some (seg_start (hd (get_segments c))) \<and>
         end_time c = Some (seg_end (last (get_segments c)))"
proof -
  from chunk_transcript_created [OF assms] obtain segs
    where "segs \<noteq> []" and "c = create_chunk_transcript segs" by blast
  then show ?thesis
    by (simp add: create_chunk_transcript_def get_segments_def)
qed

theorem chunk_fields_witness:
  "get_segments lecture \<noteq> [] \<and>
   create_chunk_transcript [seg1, seg2] \<in> set (chunk_transcript 5 lecture) \<and>
   t_text (create_chunk_transcript [seg1, seg2]) = Some ''one two three four five'' \<and>
   start_time (create_chunk_transcript [seg1, seg2]) = Some 0 \<and>
   end_time (create_chunk_transcript [seg1, seg2]) = Some (15 / 2)"
proof -
  have h1: "get_segments lecture \<noteq> []"
    by (simp add: lecture_segments)
  have h2: "create_chunk_transcript [seg1, seg2] \<in> set (chunk_transcript 5 lecture)"
    by (simp add: lecture_chunks)
  from chunk_fields [OF h1 h2] h1 h2 show ?thesis
    by (simp add: seg1_def seg2_def)
qed

section \<open>The token estimate\<close>

lemma estimate_tokens_div:
  "estimate_tokens text = (13 * int (length (str_split text))) div 10"
proof -
  have "of_nat (length (str_split text)) * (13 / 10 :: rat) =
        of_int (13 * int (length (str_split text))) / of_int 10"
    by simp
  then show ?thesis
    unfolding estimate_tokens_def by (simp only: floor_divide_of_int_eq)
qed

text \<open>
  Claim C4, amended. The token estimate is the product of the word count and 1.3
  truncated toward zero, not rounded to nearest: it is the integer quotient of 13 times
  the word count by 10, at most the product and less than one below it. Three words
  (3.9) are estimated at 3.
\<close>

theorem estimate_tokens_truncates:
  "estimate_tokens text = (13 * int (length (str_split text))) div 10 \<and>
   of_int (estimate_tokens text) \<le> of_nat (length (str_split text)) * (13 / 10 :: rat) \<and>
   of_nat (length (str_split text)) * (13 / 10 :: rat) < of_int (estimate_tokens text) + 1 \<and>
   estimate_tokens ''one two three'' = 3"
proof (intro conjI)
  show "estimate_tokens text = (13 * int (length (str_split text))) div 10"
    by (rule estimate_tokens_div)
  show "of_int (estimate_tokens text) \<le> of_nat (length (str_split text)) * (13 / 10 :: rat)"
    unfolding estimate_tokens_def by (rule of_int_floor_le)
  show "of_nat (length (str_split text)) * (13 / 10 :: rat) < of_int (estimate_tokens text) + 1"
    unfolding estimate_tokens_def by linarith
  show "estimate_tokens ''one two three'' = 3"
    by (simp add: estimate_tokens_div wc3)
qed

text \<open>
  Three words: the code's estimate is 3, the specification's rounding formula gives 4.
\<close>

theorem estimate_tokens_round_counterexample:
  "estimate_tokens ''one two three'' = 3 \<and> spec_estimated_tokens ''one two three'' = 4"
proof
  show "estimate_tokens ''one two three'' = 3"
    by (simp add: estimate_tokens_div wc3)
  have "round (39 / 10 :: rat) = 4"
    by (rule round_unique) simp_all
  then show "spec_estimated_tokens ''one two three'' = 4"
    by (simp add: spec_estimated_tokens_def wc3)
qed

subsection \<open>The product as a double\<close>

lemma round_half_even_bounds:
  "of_int \<lfloor>x\<rfloor> \<le> (of_int (round_half_even x) :: rat) \<and> of_int (round_half_even x) \<le> x + 1 / 2"
  unfolding round_half_even_def Let_def
  by (auto simp: not_less) linarith+

lemma double_1_3_split: "double_1_3 = 13 / 10 + 1 / (5 * 2 ^ 52)"
  by (simp add: double_1_3_def)

lemma double_product_floor:
  assumes n49: "n < 2 ^ 49"
  shows "\<lfloor>double_product n\<rfloor> = (13 * int n) div 10"
proof (cases "n = 0")
  case True
  then show ?thesis by (simp add: double_product_def)
next
  case False
  define x :: rat where "x = of_nat n * double_1_3"
  define k :: int where "k = (13 * int n) div 10"
  define r :: int where "r = (13 * int n) mod 10"
  have kr: "13 * int n = 10 * k + r" and r: "0 \<le> r" "r \<le> 9"
    by (simp_all add: k_def r_def)
  have n1: "1 \<le> int n"
    using False by simp
  have "int n < int (2 ^ 49)"
    using n49 by (simp only: of_nat_less_iff)
  then have n2: "int n < 2 ^ 49"
    by simp
  have k1: "1 \<le> k" and k50: "k < 2 ^ 50"
    using kr r n1 n2 by simp_all
  have "(of_nat n :: rat) * 13 = of_int (13 * int n)"
    by simp
  also have "\<dots> = 10 * of_int k + of_int r"
    by (simp only: kr of_int_add of_int_mult of_int_numeral)
  finally have n13: "(of_nat n :: rat) * 13 = 10 * of_int k + of_int r" .
  have nq: "(of_nat n :: rat) = of_int (int n)" by simp
  have "(of_nat n :: rat) < of_nat (2 ^ 49)"
    using n49 by (simp only: of_nat_less_iff)
  then have nlt: "(of_nat n :: rat) < 2 ^ 49"
    by simp
  have ngt: "(0 :: rat) < of_nat n"
    using False by simp
  have xeq: "x = of_int k + of_int r / 10 + of_nat n / (5 * 2 ^ 52)"
    using n13 by (simp add: x_def double_1_3_split field_simps)
  have rr: "(0 :: rat) \<le> of_int r" "(of_int r :: rat) \<le> 9"
    using r by simp_all
  have xlo: "of_int k \<le> x"
    using xeq rr ngt by simp
  have xhi: "x < of_int k + 37 / 40"
  proof -
    have "of_nat n / (5 * 2 ^ 52) < (1 / 40 :: rat)"
      using nlt by (simp add: field_simps)
    moreover have "(of_int r :: rat) / 10 \<le> 9 / 10"
      using rr by simp
    ultimately show ?thesis using xeq by linarith
  qed
  have fl: "\<lfloor>x\<rfloor> = k"
    using xlo xhi by (intro floor_unique) simp_all
  define e where "e = bitlen k - 1"
  have "bitlen k \<le> 50"
    using k50 by (simp add: bitlen_le_iff_power)
  moreover have "1 \<le> bitlen k"
    using k1 by (simp add: bitlen_ge_iff_power)
  ultimately have e: "0 \<le> e" "e \<le> 49"
    by (simp_all add: e_def)
  define j where "j = 52 - nat e"
  have j3: "3 \<le> j" and j52: "nat e + j = 52"
    using e by (simp_all add: j_def)
  define P :: rat where "P = 2 ^ j"
  have P8: "8 \<le> P"
  proof -
    have "(2 :: rat) ^ 3 \<le> 2 ^ j"
      using j3 by (intro power_increasing) simp_all
    then show ?thesis by (simp add: P_def)
  qed
  have ulp: "(2 :: rat) ^ nat e / 2 ^ 52 = 1 / P"
  proof -
    have "(2 :: rat) ^ 52 = 2 ^ nat e * 2 ^ j"
      by (simp only: power_add [symmetric] j52)
    then have "(2 :: rat) ^ nat e / 2 ^ 52 = 2 ^ nat e / (2 ^ nat e * 2 ^ j)"
      by (simp only:)
    also have "\<dots> = 1 / 2 ^ j"
      by simp
    finally show ?thesis by (simp only: P_def)
  qed
  define m where "m = round_half_even (x * P)"
  have "double_product n = of_int (round_half_even (x / (1 / P))) * (1 / P)"
    unfolding double_product_def Let_def x_def [symmetric] fl e_def [symmetric] ulp
    using False by (simp only: if_False)
  then have dp: "double_product n = of_int m / P"
    by (simp add: m_def)
  have kP: "(of_int (k * 2 ^ j) :: rat) = of_int k * P"
    by (simp add: P_def)
  have "of_int k * P \<le> x * P"
    using xlo P8 by (intro mult_right_mono) simp_all
  then have "(of_int (k * 2 ^ j) :: rat) \<le> x * P"
    by (simp only: kP)
  then have "k * 2 ^ j \<le> \<lfloor>x * P\<rfloor>"
    by (simp only: le_floor_iff)
  then have fl2: "(of_int (k * 2 ^ j) :: rat) \<le> of_int \<lfloor>x * P\<rfloor>"
    by (simp only: of_int_le_iff)
  have rb1: "(of_int \<lfloor>x * P\<rfloor> :: rat) \<le> of_int m"
    and rb2: "of_int m \<le> x * P + 1 / 2"
    using round_half_even_bounds [of "x * P"] by (simp_all only: m_def)
  have "of_int k * P = (of_int (k * 2 ^ j) :: rat)"
    by (simp only: kP)
  also note fl2
  also note rb1
  finally have mlo: "of_int k * P \<le> of_int m" .
  have "x * P < (of_int k + 37 / 40) * P"
    using xhi P8 by (intro mult_strict_right_mono) simp_all
  with rb2 have "of_int m < (of_int k + 37 / 40) * P + 1 / 2"
    by linarith
  also have "\<dots> \<le> (of_int k + 1) * P"
    using P8 by (simp add: field_simps)
  finally have mhi: "of_int m < (of_int k + 1) * P" .
  have Ppos: "0 < P" using P8 by simp
  have "of_int k \<le> of_int m / P" "of_int m / P < of_int k + 1"
    using mlo mhi Ppos by (simp_all add: field_simps)
  then have "\<lfloor>of_int m / P\<rfloor> = k"
    by (intro floor_unique) simp_all
  then show ?thesis
    by (simp add: dp k_def)
qed

lemma estimate_tokens_double:
  "length (str_split text) < 2 ^ 49 \<Longrightarrow>
   \<lfloor>double_product (length (str_split text))\<rfloor> = estimate_tokens text"
  by (simp add: double_product_floor estimate_tokens_div)

section \<open>Model availability\<close>

lemma base_name_prefix: "prefix (base_name n) n"
  unfolding base_name_def by (metis prefixI takeWhile_dropWhile_id)

lemma name_matches_iff:
  "name_matches m names \<longleftrightarrow> m \<in> set names \<or> (\<exists>name \<in> set names. prefix (base_name m) name)"
  by (auto simp: name_matches_def list_ex_iff)

text \<open>
  Claim C7, amended. When the backend answers the listing, the availability check is
  true exactly when the requested identifier is among the reported names (the empty ones
  dropped), or some reported name starts with the requested identifier's base name (the
  part before its first colon). In particular it is true when a reported name has the
  same base name as the requested one.
\<close>

theorem model_available_prefix:
  assumes "list_models (client g) = Inr models"
  shows "(snd (check_model_available g st) \<longleftrightarrow>
            model g \<in> set (model_names models) \<or>
            (\<exists>name \<in> set (model_names models). prefix (base_name (model g)) name)) \<and>
         ((\<exists>name \<in> set (model_names models). base_name name = base_name (model g)) \<longrightarrow>
            snd (check_model_available g st))"
proof
  show iff: "snd (check_model_available g st) \<longleftrightarrow>
            model g \<in> set (model_names models) \<or>
            (\<exists>name \<in> set (model_names models). prefix (base_name (model g)) name)"
    using assms by (simp add: check_model_available_def Let_def name_matches_iff)
  show "(\<exists>name \<in> set (model_names models). base_name name = base_name (model g)) \<longrightarrow>
            snd (check_model_available g st)"
  proof
    assume "\<exists>name \<in> set (model_names models). base_name name = base_name (model g)"
    then obtain name where "name \<in> set (model_names models)" "base_name name = base_name (model g)"
      by blast
    with base_name_prefix [of name] iff show "snd (check_model_available g st)"
      by auto
  qed
qed

theorem model_available_prefix_witness:
  "list_models (client untagged_generator) =
     Inr [\<lparr>entry_model = None, entry_name = Some ''llama3.2''\<rparr>] \<and>
   snd (check_model_available untagged_generator st0) \<and>
   list_models (client example_generator) =
     Inr [\<lparr>entry_model = Some ''llama3.2:3b'', entry_name = None\<rparr>] \<and>
   snd (check_model_available example_generator st0) \<and>
   list_models (client mistral_generator) =
     Inr [\<lparr>entry_model = Some ''mistral:7b'', entry_name = None\<rparr>] \<and>
   \<not> snd (check_model_available mistral_generator st0)"
proof -
  have bn: "base_name ''llama3.2'' = ''llama3.2''"
    by (simp add: base_name_def)
  have a: "snd (check_model_available untagged_generator st0)"
    using model_available_prefix [OF more_fields(6), of st0]
    by (simp add: names_example more_fields base_llama bn)
  have b: "snd (check_model_available example_generator st0)"
    using model_available_prefix [OF echo_fields(1) [folded example_fields(3)], of st0]
    by (simp add: names_example example_fields)
  have c: "\<not> snd (check_model_available mistral_generator st0)"
    using model_available_prefix [OF more_fields(4), of st0]
    by (simp add: names_example more_fields base_llama)
  from a b c show ?thesis
    by (simp add: more_fields example_fields echo_fields)
qed

text \<open>
  Requesting \<open>llama3\<close> with only \<open>llama3.2:3b\<close> installed: the names differ and so do
  the base names (\<open>llama3.2\<close> and \<open>llama3\<close>), yet the check answers true.
\<close>

theorem model_prefix_counterexample:
  "list_models (client llama3_generator) =
     Inr [\<lparr>entry_model = Some ''llama3.2:3b'', entry_name = None\<rparr>] \<and>
   model llama3_generator = ''llama3'' \<and>
   snd (check_model_available llama3_generator st0) \<and>
   ''llama3'' \<noteq> ''llama3.2:3b'' \<and>
   base_name ''llama3.2:3b'' \<noteq> base_name ''llama3''"
  by (simp add: more_fields check_model_available_def Let_def names_example matches_examples
        base_llama base_llama3)

section \<open>The chunked pass\<close>

lemma client_generate_chunk:
  assumes "client_generate g (CHUNK_SUMMARY_PROMPT (format_transcript_for_prompt c)) st =
             (st1, Inr response)"
  shows "calls st1 = calls st @ [chunk_call g c]"
    and "printed_errors st1 = printed_errors st"
    and "response = chunk_reply g (calls st) c"
  using assms
  by (auto simp: client_generate_def record_call_def chunk_call_def chunk_reply_def Let_def
           split: sum.splits)

lemma map_upt_shift: "map f [0..<Suc n] = f 0 # map (\<lambda>k. f (Suc k)) [0..<n]"
  by (simp add: map_upt_Suc del: upt_Suc)

lemma summarize_chunks_Inr:
  "summarize_chunks g i cs acc st = (st', Inr acc') \<Longrightarrow>
   calls st' = calls st @ map (chunk_call g) cs \<and>
   printed_errors st' = printed_errors st \<and>
   acc' = acc @ map (\<lambda>k. section_note (i + k) (cs ! k)
                     (chunk_reply g (calls st @ map (chunk_call g) (take k cs)) (cs ! k)))
                 [0..<length cs]"
proof (induction cs arbitrary: i acc st)
  case Nil
  then show ?case by simp
next
  case (Cons c cs)
  let ?p = "CHUNK_SUMMARY_PROMPT (format_transcript_for_prompt c)"
  obtain st1 r where cg: "client_generate g ?p st = (st1, r)"
    by (cases "client_generate g ?p st") auto
  show ?case
  proof (cases r)
    case (Inl e)
    with Cons.prems cg show ?thesis by (simp add: Let_def)
  next
    case (Inr response)
    note f = client_generate_chunk [OF cg [unfolded Inr]]
    from Cons.prems cg Inr
    have "summarize_chunks g (i + 1) cs (acc @ [section_note i c response]) st1 = (st', Inr acc')"
      by (simp add: Let_def)
    from Cons.IH [OF this] f show ?thesis
      by (simp add: map_upt_shift del: upt_Suc)
  qed
qed

text \<open>
  Claim C2. When the chunked pass returns notes for a transcript that chunks into N
  chunks, the calls it added to the backend are exactly: N chunk-summary calls, not
  streamed, one per chunk in chunk order, then one merge call (streamed if asked). The
  merge prompt is the merge template around the N section notes in the same order, joined
  by the section rule, note \<open>i\<close> being the backend's answer to call \<open>i\<close> under the label with
  the chunk's number and formatted time range.
\<close>

theorem chunked_pass_calls:
  assumes "generate_chunked g t stream_output st = (st', Inr final)"
  shows "let chunks = chunk_transcript (chunk_size g) t in
         calls st' = calls st @ map (chunk_call g) chunks @
           [Generate (model g)
              (MERGE_NOTES_PROMPT (join ''\<newline>\<newline>---\<newline>\<newline>''
                 (map (\<lambda>i. section_note i (chunks ! i)
                          (chunk_reply g (calls st @ map (chunk_call g) (take i chunks))
                             (chunks ! i)))
                      [0..<length chunks])))
              stream_output]"
proof -
  let ?chunks = "chunk_transcript (chunk_size g) t"
  obtain st1 r where sc: "summarize_chunks g 0 ?chunks [] st = (st1, r)"
    by (cases "summarize_chunks g 0 ?chunks [] st") auto
  show ?thesis
  proof (cases r)
    case (Inl e)
    with assms sc show ?thesis by (simp add: generate_chunked_def Let_def)
  next
    case (Inr section_notes)
    note f = summarize_chunks_Inr [OF sc [unfolded Inr]]
    let ?mp = "MERGE_NOTES_PROMPT (join ''\<newline>\<newline>---\<newline>\<newline>'' section_notes)"
    from assms sc Inr
    have "(if stream_output then stream_generate g ?mp st1 else client_generate g ?mp st1) =
            (st', Inr final)"
      by (simp add: generate_chunked_def Let_def)
    then have "calls st' = calls st1 @ [Generate (model g) ?mp stream_output]"
      by (auto simp: stream_generate_def client_generate_def record_call_def print_error_def
            Let_def split: if_splits sum.splits)
    with f show ?thesis by (simp add: Let_def)
  qed
qed

theorem chunked_pass_calls_witness:
  "generate_chunked example_generator lecture True st0 =
     (\<lparr> calls =
          [Generate ''llama3.2:3b''
             (CHUNK_SUMMARY_PROMPT ''[00:00] one two three\<newline>[00:04] four five'') False,
           Generate ''llama3.2:3b''
             (CHUNK_SUMMARY_PROMPT ''[00:08] six seven eight nine'') False,
           Generate ''llama3.2:3b''
             (MERGE_NOTES_PROMPT
                ''## Section 1 [00:00 - 00:07]\<newline>\<newline>reply 0\<newline>\<newline>---\<newline>\<newline>## Section 2 [00:08 - 01:01:40]\<newline>\<newline>reply 1'')
             True],
         printed_errors = [] \<rparr>,
      Inr ''streamed reply'') \<and>
   (let chunks = chunk_transcript (chunk_size example_generator) lecture in
    [Generate ''llama3.2:3b''
       (CHUNK_SUMMARY_PROMPT ''[00:00] one two three\<newline>[00:04] four five'') False,
     Generate ''llama3.2:3b''
       (CHUNK_SUMMARY_PROMPT ''[00:08] six seven eight nine'') False,
     Generate ''llama3.2:3b''
       (MERGE_NOTES_PROMPT
          ''## Section 1 [00:00 - 00:07]\<newline>\<newline>reply 0\<newline>\<newline>---\<newline>\<newline>## Section 2 [00:08 - 01:01:40]\<newline>\<newline>reply 1'')
       True] =
    calls st0 @ map (chunk_call example_generator) chunks @
      [Generate (model example_generator)
         (MERGE_NOTES_PROMPT (join ''\<newline>\<newline>---\<newline>\<newline>''
            (map (\<lambda>i. section_note i (chunks ! i)
                     (chunk_reply example_generator
                        (calls st0 @ map (chunk_call example_generator) (take i chunks))
                        (chunks ! i)))
                 [0..<length chunks])))
         True])"
proof -
  note h = example_chunked_run
  from chunked_pass_calls [OF h] h show ?thesis
    by (simp only: run_state.select_convs simp_thms)
qed

section \<open>Strategy decision\<close>

text \<open>
  Claim C3, amended. With the model available, the orchestrator estimates the tokens of
  the transcript's text; when the estimate is at most the chunk-size budget it takes the
  single pass, one generation call with the single-pass note template; when the estimate
  is strictly above the budget it takes the chunked pass. An estimate equal to the budget
  takes the single pass.
\<close>

theorem strategy_decision:
  assumes "check_model_available g st = (st1, True)"
  shows "(estimate_tokens (get_text t) \<le> chunk_size g \<longrightarrow>
            generate_notes g t so st = generate_single g t so st1 \<and>
            calls (fst (generate_single g t so st1)) =
              calls st1 @
              [Generate (model g) (NOTE_PROMPT_TEMPLATE (format_transcript_for_prompt t)) so]) \<and>
         (chunk_size g < estimate_tokens (get_text t) \<longrightarrow>
            generate_notes g t so st = generate_chunked g t so st1)"
  using assms
  by (auto simp: generate_notes_def generate_single_def client_generate_def stream_generate_def
        record_call_def print_error_def Let_def split: sum.splits)

theorem strategy_decision_witness:
  "check_model_available generator11 st0 = (record_call List_models st0, True) \<and>
   estimate_tokens (get_text lecture) \<le> chunk_size generator11 \<and>
   generate_notes generator11 lecture True st0 =
     generate_single generator11 lecture True (record_call List_models st0) \<and>
   calls (fst (generate_single generator11 lecture True (record_call List_models st0))) =
     calls (record_call List_models st0) @
     [Generate (model generator11) (NOTE_PROMPT_TEMPLATE (format_transcript_for_prompt lecture)) True] \<and>
   check_model_available example_generator st0 = (record_call List_models st0, True) \<and>
   chunk_size example_generator < estimate_tokens (get_text lecture) \<and>
   generate_notes example_generator lecture True st0 =
     generate_chunked example_generator lecture True (record_call List_models st0)"
proof -
  have h1: "estimate_tokens (get_text lecture) \<le> chunk_size generator11"
    by (simp add: est_lecture example_fields)
  have h2: "chunk_size example_generator < estimate_tokens (get_text lecture)"
    by (simp add: est_lecture example_fields)
  from strategy_decision [OF check_generator11, of lecture True st0] h1
    strategy_decision [OF check_example, of lecture True st0] h2
    check_generator11 [of st0] check_example [of st0]
  show ?thesis by simp
qed

text \<open>
  The lecture is estimated at 11 tokens. With a budget of 11 the run is the single pass:
  one call with the note template, not the calls of the chunked pass.
\<close>

theorem strategy_equal_counterexample:
  "estimate_tokens (get_text lecture) = chunk_size generator11 \<and>
   generate_notes generator11 lecture True st0 =
     (\<lparr> calls = [List_models,
                 Generate ''llama3.2:3b''
                   (NOTE_PROMPT_TEMPLATE
                      ''[00:00] one two three\<newline>[00:04] four five\<newline>[00:08] six seven eight nine'')
                   True],
         printed_errors = [] \<rparr>, Inr ''streamed reply'') \<and>
   generate_notes generator11 lecture True st0 \<noteq>
     generate_chunked generator11 lecture True (record_call List_models st0)"
  by (simp add: single_run11 chunked_run11 est_lecture example_fields)

section \<open>Backend errors\<close>

lemma surfaces_client:
  "client_generate g p st = (st', r) \<Longrightarrow> surfaces (client g) st st' r"
  by (auto simp: client_generate_def record_call_def surfaces_def Let_def less_Suc_eq_le
           split: sum.splits)

lemma surfaces_stream:
  "stream_generate g p st = (st', r) \<Longrightarrow> surfaces (client g) st st' r"
  by (auto simp: stream_generate_def record_call_def print_error_def surfaces_def Let_def
        less_Suc_eq_le split: sum.splits)

lemma surfaces_refl: "surfaces be st st r"
  by (simp add: surfaces_def)

lemma surfaces_seq:
  assumes a: "surfaces be st st1 (Inr x)" and b: "surfaces be st1 st' r"
  shows "surfaces be st st' r"
proof -
  from a obtain e1 where e1: "calls st1 = calls st @ e1"
    by (auto simp: surfaces_def prefix_def)
  from b obtain e2 where e2: "calls st' = calls st1 @ e2"
    by (auto simp: surfaces_def prefix_def)
  have "r = Inl e" if k: "length (calls st) \<le> k" "k < length (calls st')"
    and ra: "raised be (take k (calls st')) (calls st' ! k) = Some e" for k e
  proof (cases "k < length (calls st1)")
    case True
    then have "take k (calls st') = take k (calls st1)" "calls st' ! k = calls st1 ! k"
      by (simp_all add: e2 nth_append)
    with a k True ra have "(Inr x :: error + 'a) = Inl e"
      unfolding surfaces_def by metis
    then show ?thesis by simp
  next
    case False
    then have "length (calls st1) \<le> k" by simp
    with b k(2) ra show ?thesis
      unfolding surfaces_def by blast
  qed
  then show ?thesis
    by (simp add: surfaces_def e1 e2)
qed

lemma surfaces_summarize:
  "summarize_chunks g i cs acc st = (st', r) \<Longrightarrow> surfaces (client g) st st' r"
proof (induction cs arbitrary: i acc st)
  case Nil
  then show ?case by (auto simp: surfaces_refl)
next
  case (Cons c cs)
  let ?p = "CHUNK_SUMMARY_PROMPT (format_transcript_for_prompt c)"
  obtain st1 r1 where cg: "client_generate g ?p st = (st1, r1)"
    by (cases "client_generate g ?p st") auto
  show ?case
  proof (cases r1)
    case (Inl e)
    with Cons.prems cg have "st' = st1" "r = Inl e" by (auto simp: Let_def)
    with surfaces_client [OF cg] Inl show ?thesis
      by (auto simp: surfaces_def)
  next
    case (Inr response)
    from Cons.prems cg Inr
    have "summarize_chunks g (i + 1) cs (acc @ [section_note i c response]) st1 = (st', r)"
      by (simp add: Let_def)
    from surfaces_seq [OF surfaces_client [OF cg [unfolded Inr]] Cons.IH [OF this]]
    show ?thesis .
  qed
qed

lemma surfaces_chunked:
  assumes "generate_chunked g t so st = (st', r)"
  shows "surfaces (client g) st st' r"
proof -
  let ?chunks = "chunk_transcript (chunk_size g) t"
  obtain st1 r1 where sc: "summarize_chunks g 0 ?chunks [] st = (st1, r1)"
    by (cases "summarize_chunks g 0 ?chunks [] st") auto
  show ?thesis
  proof (cases r1)
    case (Inl e)
    with assms sc have "st' = st1" "r = Inl e"
      by (auto simp: generate_chunked_def Let_def)
    with surfaces_summarize [OF sc] Inl show ?thesis
      by (auto simp: surfaces_def)
  next
    case (Inr section_notes)
    let ?mp = "MERGE_NOTES_PROMPT (join ''\<newline>\<newline>---\<newline>\<newline>'' section_notes)"
    from assms sc Inr
    have "(if so then stream_generate g ?mp st1 else client_generate g ?mp st1) = (st', r)"
      by (simp add: generate_chunked_def Let_def)
    then have "surfaces (client g) st1 st' r"
      by (auto split: if_splits intro: surfaces_client surfaces_stream)
    from surfaces_seq [OF surfaces_summarize [OF sc [unfolded Inr]] this]
    show ?thesis .
  qed
qed

lemma surfaces_single:
  "generate_single g t so st = (st', r) \<Longrightarrow> surfaces (client g) st st' r"
  by (auto simp: generate_single_def Let_def split: if_splits
           intro: surfaces_client surfaces_stream)

lemma check_calls:
  "check_model_available g st = (st1, b) \<Longrightarrow> calls st1 = calls st @ [List_models]"
  by (auto simp: check_model_available_def record_call_def print_error_def Let_def
           split: sum.splits)

text \<open>
  Claim C8, amended. A failure of the model listing is caught: its text is printed behind
  \<open>Could not connect to Ollama:\<close>, the check answers false, and the caller gets the same
  hard error as for a model that is not installed, \<open>Model '...' not found. Run: ollama
  pull ...\<close>. A listing without a matching model gives that error with nothing printed. An
  exception raised by a generation call is returned to the caller unchanged.
\<close>

theorem backend_errors_surface:
  assumes run: "generate_notes g t so st = (st', r)"
  shows "(\<forall>e. list_models (client g) = Inl e \<longrightarrow>
            r = Inl (model_not_found (model g)) \<and>
            calls st' = calls st @ [List_models] \<and>
            printed_errors st' =
              printed_errors st @ [''Could not connect to Ollama: '' @ error_str e]) \<and>
         (\<forall>models. list_models (client g) = Inr models \<longrightarrow>
            \<not> name_matches (model g) (model_names models) \<longrightarrow>
            r = Inl (model_not_found (model g)) \<and>
            calls st' = calls st @ [List_models] \<and>
            printed_errors st' = printed_errors st) \<and>
         (\<forall>k e. length (calls st) < k \<longrightarrow> k < length (calls st') \<longrightarrow>
            raised (client g) (take k (calls st')) (calls st' ! k) = Some e \<longrightarrow> r = Inl e)"
proof (intro conjI allI impI)
  fix e assume "list_models (client g) = Inl e"
  with run show "r = Inl (model_not_found (model g))"
    "calls st' = calls st @ [List_models]"
    "printed_errors st' = printed_errors st @ [''Could not connect to Ollama: '' @ error_str e]"
    by (auto simp: generate_notes_def check_model_available_def record_call_def
          print_error_def Let_def)
next
  fix models
  assume "list_models (client g) = Inr models"
    and "\<not> name_matches (model g) (model_names models)"
  with run show "r = Inl (model_not_found (model g))"
    "calls st' = calls st @ [List_models]"
    "printed_errors st' = printed_errors st"
    by (auto simp: generate_notes_def check_model_available_def record_call_def Let_def)
next
  fix k e
  assume k: "length (calls st) < k" "k < length (calls st')"
    and ra: "raised (client g) (take k (calls st')) (calls st' ! k) = Some e"
  obtain st1 b where ch: "check_model_available g st = (st1, b)"
    by (cases "check_model_available g st") auto
  note c1 = check_calls [OF ch]
  show "r = Inl e"
  proof (cases b)
    case False
    with run ch have "st' = st1" by (simp add: generate_notes_def)
    with c1 k show ?thesis by simp
  next
    case True
    with run ch have "(if estimate_tokens (get_text t) > chunk_size g
        then generate_chunked g t so st1 else generate_single g t so st1) = (st', r)"
      by (simp add: generate_notes_def Let_def)
    then have "surfaces (client g) st1 st' r"
      by (auto split: if_splits intro: surfaces_chunked surfaces_single)
    moreover from k c1 have "length (calls st1) \<le> k" by simp
    ultimately show ?thesis
      using k(2) ra unfolding surfaces_def by blast
  qed
qed

theorem backend_errors_surface_witness:
  "generate_notes down_generator lecture True st0 =
     (\<lparr> calls = [List_models],
         printed_errors = [''Could not connect to Ollama: Connection refused''] \<rparr>,
      Inl (model_not_found ''llama3.2:3b'')) \<and>
   list_models (client down_generator) = Inl (BackendError ''Connection refused'') \<and>
   raised (client crashing_generator)
     (take 2 (calls (fst (generate_notes crashing_generator lecture True st0))))
     (calls (fst (generate_notes crashing_generator lecture True st0)) ! 2) =
     Some (BackendError ''model runner crashed'') \<and>
   snd (generate_notes crashing_generator lecture True st0) =
     Inl (BackendError ''model runner crashed'')"
proof -
  let ?run = "generate_notes crashing_generator lecture True st0"
  have run: "?run = (fst ?run, snd ?run)" by simp
  have ra: "raised (client crashing_generator) (take 2 (calls (fst ?run))) (calls (fst ?run) ! 2) =
      Some (BackendError ''model runner crashed'')"
    by (simp add: crashing_calls crashing_fields)
  have k1: "length (calls st0) < 2"
    by (simp add: st0_def)
  have k2: "2 < length (calls (fst ?run))"
    by (simp add: crashing_calls)
  note k = k1 k2
  from backend_errors_surface [OF run] k ra
  have "snd ?run = Inl (BackendError ''model runner crashed'')"
    by blast
  with ra down_run more_fields(2) show ?thesis by simp
qed

text \<open>
  A backend that cannot be reached and a backend without the model give the caller the
  same error, the one that reports a missing model.
\<close>

theorem unreachable_reported_missing_counterexample:
  "list_models (client down_generator) = Inl (BackendError ''Connection refused'') \<and>
   snd (generate_notes down_generator lecture True st0) = Inl (model_not_found ''llama3.2:3b'') \<and>
   list_models (client mistral_generator) =
     Inr [\<lparr>entry_model = Some ''mistral:7b'', entry_name = None\<rparr>] \<and>
   snd (generate_notes mistral_generator lecture True st0) = Inl (model_not_found ''llama3.2:3b'') \<and>
   error_str (model_not_found ''llama3.2:3b'') =
     ''Model '' @ [CHR 0x27] @ ''llama3.2:3b'' @ [CHR 0x27] @
     '' not found. Run: ollama pull llama3.2:3b''"
  by (simp add: down_run mistral_run more_fields model_not_found_def)

section \<open>File fingerprint\<close>

lemma hex_digit_in: "d < 16 \<Longrightarrow> hex_digit d \<in> set ''0123456789abcdef''"
  unfolding hex_digit_def by (rule nth_mem) simp

lemma hexdigest_length: "length (hexdigest w) = 32"
  by (simp add: hexdigest_def)

lemma hexdigest_chars: "set (hexdigest w) \<subseteq> set ''0123456789abcdef''"
  unfolding hexdigest_def using hex_digit_in by (auto simp del: set_simps)

lemma key_shape:
  "length (take 12 (hexdigest w)) = 12 \<and> set (take 12 (hexdigest w)) \<subseteq> set ''0123456789abcdef''"
  using hexdigest_chars [of w] set_take_subset [of 12 "hexdigest w"]
  by (simp add: hexdigest_length)

subsection \<open>The digested string\<close>

lemma hex_digit_inj: "a < 16 \<Longrightarrow> b < 16 \<Longrightarrow> hex_digit a = hex_digit b \<Longrightarrow> a = b"
  unfolding hex_digit_def
  by (subst (asm) nth_eq_iff_index_eq) simp_all

lemma digit_char_inj: "a < 10 \<Longrightarrow> b < 10 \<Longrightarrow> digit_char a = digit_char b \<Longrightarrow> a = b"
  unfolding digit_char_def
  by (subst (asm) nth_eq_iff_index_eq) simp_all

lemma of_char_eqI: "(of_char a :: nat) = of_char b \<Longrightarrow> a = b"
  by (metis char_of_char)

lemma byte_split_eq:
  assumes "(of_char a :: nat) div 16 = of_char b div 16" "(of_char a :: nat) mod 16 = of_char b mod 16"
  shows "a = b"
proof -
  have "(of_char a :: nat) = of_char b"
    using assms by (metis div_mult_mod_eq)
  then show ?thesis by (rule of_char_eqI)
qed

lemma of_char_lt: "(of_char c :: nat) div 16 < 16"
proof -
  have "(of_char c :: nat) < 256" by (simp add: of_char_def) 
  then show ?thesis by presburger
qed

lemma hex_pair:
  assumes "hex_digit (of_char a div 16) = hex_digit (of_char b div 16)"
    and "hex_digit (of_char a mod 16) = hex_digit (of_char b mod 16)"
  shows "a = b"
proof (rule byte_split_eq)
  show "(of_char a :: nat) div 16 = of_char b div 16"
    using assms(1) by (rule hex_digit_inj [OF of_char_lt of_char_lt])
  show "(of_char a :: nat) mod 16 = of_char b mod 16"
    using assms(2) by (simp add: hex_digit_inj)
qed

lemma repr_byte_cancel:
  assumes q: "q = CHR 0x27 \<or> q = CHR 0x22"
    and eq: "repr_byte q a @ xs = repr_byte q b @ ys"
  shows "a = b \<and> xs = ys"
  using eq q
  by (auto simp: repr_byte_def split: if_splits dest: hex_pair)

lemma repr_quote_cases: "repr_quote bs = CHR 0x27 \<or> repr_quote bs = CHR 0x22"
  by (simp add: repr_quote_def)

lemma repr_concat_inj:
  assumes q: "q = CHR 0x27 \<or> q = CHR 0x22"
  shows "concat (map (repr_byte q) as) = concat (map (repr_byte q) bs) \<Longrightarrow> as = bs"
proof (induction as arbitrary: bs)
  case Nil
  then show ?case
    by (cases bs) (auto simp: repr_byte_def split: if_splits)
next
  case (Cons a as)
  show ?case
  proof (cases bs)
    case Nil
    with Cons.prems show ?thesis
      by (auto simp: repr_byte_def split: if_splits)
  next
    case (Cons b bs')
    with Cons.prems repr_byte_cancel [OF q, of a _ b] Cons.IH show ?thesis
      by auto
  qed
qed

lemma bytes_repr_inj: "bytes_repr as = bytes_repr bs \<Longrightarrow> as = bs"
proof -
  assume eq: "bytes_repr as = bytes_repr bs"
  then have q: "repr_quote as = repr_quote bs"
    by (simp add: bytes_repr_def Let_def)
  with eq have "concat (map (repr_byte (repr_quote as)) as) =
      concat (map (repr_byte (repr_quote as)) bs)"
    by (simp add: bytes_repr_def Let_def)
  from repr_concat_inj [OF repr_quote_cases this] show ?thesis .
qed

text \<open>The decimal rendering of a number determines the number.\<close>

lemma str_nat_nonempty: "str_nat n \<noteq> []"
  by (subst str_nat.simps) simp

lemma str_nat_inj: "str_nat m = str_nat n \<Longrightarrow> m = n"
proof (induction m arbitrary: n rule: str_nat.induct)
  case (1 m)
  show ?case
  proof (cases "m < 10")
    case True
    show ?thesis
    proof (cases "n < 10")
      case n: True
      from "1.prems" True n have "digit_char m = digit_char n"
        by (simp add: str_nat.simps [of m] str_nat.simps [of n])
      with True n show ?thesis by (simp add: digit_char_inj)
    next
      case False
      with "1.prems" True str_nat_nonempty [of "n div 10"] show ?thesis
        by (simp add: str_nat.simps [of m] str_nat.simps [of n])
    qed
  next
    case False
    show ?thesis
    proof (cases "n < 10")
      case True
      with "1.prems" False str_nat_nonempty [of "m div 10"] show ?thesis
        by (simp add: str_nat.simps [of m] str_nat.simps [of n])
    next
      case n: False
      from "1.prems" False n
      have a: "str_nat (m div 10) = str_nat (n div 10)"
        and b: "digit_char (m mod 10) = digit_char (n mod 10)"
        by (simp_all add: str_nat.simps [of m] str_nat.simps [of n])
      from "1.IH" [OF False a] have "m div 10 = n div 10" .
      moreover from b have "m mod 10 = n mod 10"
        by (simp add: digit_char_inj)
      ultimately show ?thesis
        by (metis div_mult_mod_eq)
    qed
  qed
qed

lemma hash_input_eq_content:
  assumes "st_size f = st_size f'" and "st_mtime f = st_mtime f'"
  shows "hash_input float_str f = hash_input float_str f' \<longleftrightarrow>
         take (1024 * 1024) (content f) = take (1024 * 1024) (content f')"
  using assms by (auto simp: hash_input_def dest: bytes_repr_inj)

lemma hash_input_eq_size:
  assumes "take (1024 * 1024) (content f) = take (1024 * 1024) (content f')"
    and "st_mtime f = st_mtime f'"
  shows "hash_input float_str f = hash_input float_str f' \<longleftrightarrow> st_size f = st_size f'"
  using assms by (auto simp: hash_input_def dest: str_nat_inj)

lemma hash_input_eq_mtime:
  assumes "take (1024 * 1024) (content f) = take (1024 * 1024) (content f')"
    and "st_size f = st_size f'"
  shows "hash_input float_str f = hash_input float_str f' \<longleftrightarrow>
         float_str (st_mtime f) = float_str (st_mtime f')"
  using assms by (auto simp: hash_input_def)

text \<open>
  Claim C9, amended. The fingerprint of an existing file is a 12-character string of
  lowercase hexadecimal digits and depends on the file's first MiB, its size and its
  modification time only: two files equal in these three have the same key. Changing
  exactly one of the three (the time as far as its rendering changes) changes the string
  that is digested; two files whose digested strings are equal have the same key. That
  different digested strings give different keys is not claimed.
\<close>

theorem fingerprint_function:
  assumes "fs p = Some f" and "fs' p' = Some f'"
  shows "(\<exists>key. get_file_hash md5 float_str fs p = Inr key \<and> length key = 12 \<and>
                set key \<subseteq> set ''0123456789abcdef'') \<and>
         (take (1024 * 1024) (content f) = take (1024 * 1024) (content f') \<and>
          st_size f = st_size f' \<and> st_mtime f = st_mtime f' \<longrightarrow>
            get_file_hash md5 float_str fs p = get_file_hash md5 float_str fs' p') \<and>
         (take (1024 * 1024) (content f) \<noteq> take (1024 * 1024) (content f') \<and>
          st_size f = st_size f' \<and> st_mtime f = st_mtime f' \<longrightarrow>
            hash_input float_str f \<noteq> hash_input float_str f') \<and>
         (take (1024 * 1024) (content f) = take (1024 * 1024) (content f') \<and>
          st_size f \<noteq> st_size f' \<and> st_mtime f = st_mtime f' \<longrightarrow>
            hash_input float_str f \<noteq> hash_input float_str f') \<and>
         (take (1024 * 1024) (content f) = take (1024 * 1024) (content f') \<and>
          st_size f = st_size f' \<and> float_str (st_mtime f) \<noteq> float_str (st_mtime f') \<longrightarrow>
            hash_input float_str f \<noteq> hash_input float_str f') \<and>
         (hash_input float_str f = hash_input float_str f' \<longrightarrow>
            get_file_hash md5 float_str fs p = get_file_hash md5 float_str fs' p')"
proof (intro conjI impI)
  show "\<exists>key. get_file_hash md5 float_str fs p = Inr key \<and> length key = 12 \<and>
                set key \<subseteq> set ''0123456789abcdef''"
    using assms(1) key_shape by (simp add: get_file_hash_def)
next
  assume "take (1024 * 1024) (content f) = take (1024 * 1024) (content f') \<and>
          st_size f = st_size f' \<and> st_mtime f = st_mtime f'"
  then have "hash_input float_str f = hash_input float_str f'"
    by (simp add: hash_input_def)
  with assms show "get_file_hash md5 float_str fs p = get_file_hash md5 float_str fs' p'"
    by (simp add: get_file_hash_def)
next
  assume "take (1024 * 1024) (content f) \<noteq> take (1024 * 1024) (content f') \<and>
          st_size f = st_size f' \<and> st_mtime f = st_mtime f'"
  then show "hash_input float_str f \<noteq> hash_input float_str f'"
    by (simp add: hash_input_eq_content)
next
  assume "take (1024 * 1024) (content f) = take (1024 * 1024) (content f') \<and>
          st_size f \<noteq> st_size f' \<and> st_mtime f = st_mtime f'"
  then show "hash_input float_str f \<noteq> hash_input float_str f'"
    by (simp add: hash_input_eq_size)
next
  assume "take (1024 * 1024) (content f) = take (1024 * 1024) (content f') \<and>
          st_size f = st_size f' \<and> float_str (st_mtime f) \<noteq> float_str (st_mtime f')"
  then show "hash_input float_str f \<noteq> hash_input float_str f'"
    by (simp add: hash_input_eq_mtime)
next
  assume "hash_input float_str f = hash_input float_str f'"
  with assms show "get_file_hash md5 float_str fs p = get_file_hash md5 float_str fs' p'"
    by (simp add: get_file_hash_def)
qed

theorem fingerprint_function_witness:
  "[''lecture.mp4'' \<mapsto> video] ''lecture.mp4'' = Some video \<and>
   [''copy.mp4'' \<mapsto> video] ''copy.mp4'' = Some video \<and>
   get_file_hash zero_md5 plain_float_str [''lecture.mp4'' \<mapsto> video] ''lecture.mp4'' =
     Inr ''000000000000'' \<and>
   get_file_hash zero_md5 plain_float_str [''lecture.mp4'' \<mapsto> video] ''lecture.mp4'' =
     get_file_hash zero_md5 plain_float_str [''copy.mp4'' \<mapsto> video] ''copy.mp4'' \<and>
   hash_input plain_float_str video \<noteq> hash_input plain_float_str (video\<lparr>st_size := 4\<rparr>)"
proof -
  have h1: "[''lecture.mp4'' \<mapsto> video] ''lecture.mp4'' = Some video" by simp
  have h2: "[''copy.mp4'' \<mapsto> video] ''copy.mp4'' = Some video" by simp
  have h3: "[''lecture.mp4'' \<mapsto> video\<lparr>st_size := 4\<rparr>] ''lecture.mp4'' = Some (video\<lparr>st_size := 4\<rparr>)"
    by simp
  have e: "get_file_hash zero_md5 plain_float_str [''lecture.mp4'' \<mapsto> video] ''lecture.mp4'' =
     Inr ''000000000000''"
    by (simp add: get_file_hash_def zero_md5_def hexdigest_zero)
  from fingerprint_function [where fs = "[''lecture.mp4'' \<mapsto> video]" and p = "''lecture.mp4''"
      and f = video and fs' = "[''copy.mp4'' \<mapsto> video]" and p' = "''copy.mp4''" and f' = video
      and ?md5.0 = zero_md5 and float_str = plain_float_str, OF h1 h2]
  have a: "get_file_hash zero_md5 plain_float_str [''lecture.mp4'' \<mapsto> video] ''lecture.mp4'' =
     get_file_hash zero_md5 plain_float_str [''copy.mp4'' \<mapsto> video] ''copy.mp4''"
    by blast
  have "st_size video \<noteq> st_size (video\<lparr>st_size := 4\<rparr>)"
    by (simp add: video_def)
  with fingerprint_function [where fs = "[''lecture.mp4'' \<mapsto> video]" and p = "''lecture.mp4''"
      and f = video and fs' = "[''lecture.mp4'' \<mapsto> video\<lparr>st_size := 4\<rparr>]"
      and p' = "''lecture.mp4''" and f' = "video\<lparr>st_size := 4\<rparr>"
      and ?md5.0 = zero_md5 and float_str = plain_float_str, OF h1 h3]
  have b: "hash_input plain_float_str video \<noteq> hash_input plain_float_str (video\<lparr>st_size := 4\<rparr>)"
    by simp
  from h1 h2 e a b show ?thesis by blast
qed

subsection \<open>Collisions\<close>

text \<open>
  The three renderings are concatenated with nothing between them, so the end of the size
  and the start of the time are not told apart: a size of 1 before a time rendered
  \<open>1700000000.5\<close> gives the same digested string as a size of 11 before \<open>700000000.5\<close>.
\<close>

lemma hash_input_not_separated:
  assumes "float_str m = CHR ''1'' # float_str m'"
  shows "hash_input float_str \<lparr>content = c, st_size = 1, st_mtime = m\<rparr> =
         hash_input float_str \<lparr>content = c, st_size = 11, st_mtime = m'\<rparr>"
proof -
  have "str_nat 1 = ''1''" "str_nat 11 = ''11''"
    by code_simp+
  with assms show ?thesis
    by (simp add: hash_input_def)
qed

lemma finite_keys: "finite {k :: string. set k \<subseteq> set ''0123456789abcdef'' \<and> length k = 12}"
  by (rule finite_lists_length_eq) simp

lemma key_collision:
  fixes h :: "nat \<Rightarrow> 128 word"
  shows "\<exists>s s'. s \<noteq> s' \<and> take 12 (hexdigest (h s)) = take 12 (hexdigest (h s'))"
proof -
  let ?f = "\<lambda>s. take 12 (hexdigest (h s))"
  have "range ?f \<subseteq> {k. set k \<subseteq> set ''0123456789abcdef'' \<and> length k = 12}"
    using key_shape by blast
  then have "finite (range ?f)"
    by (rule finite_subset) (rule finite_keys)
  then have "\<not> inj ?f"
    using finite_imageD [of ?f UNIV] infinite_UNIV_nat by blast
  then show ?thesis
    by (auto simp: inj_on_def)
qed

text \<open>
  Whatever the digest function and the float rendering are, two files that differ in
  their size alone have the same fingerprint: sizes are unbounded and there are only
  \<open>16\<^sup>1\<^sup>2\<close> keys.
\<close>

theorem fingerprint_collision_counterexample:
  "\<forall>md5 float_str. \<exists>s s'. s \<noteq> s' \<and>
     get_file_hash md5 float_str [''lecture.mp4'' \<mapsto> video\<lparr>st_size := s\<rparr>] ''lecture.mp4'' =
     get_file_hash md5 float_str [''lecture.mp4'' \<mapsto> video\<lparr>st_size := s'\<rparr>] ''lecture.mp4''"
proof (intro allI)
  fix md5 :: "string \<Rightarrow> 128 word" and float_str :: "rat \<Rightarrow> string"
  from key_collision [of "\<lambda>s. md5 (hash_input float_str (video\<lparr>st_size := s\<rparr>))"]
  show "\<exists>s s'. s \<noteq> s' \<and>
     get_file_hash md5 float_str [''lecture.mp4'' \<mapsto> video\<lparr>st_size := s\<rparr>] ''lecture.mp4'' =
     get_file_hash md5 float_str [''lecture.mp4'' \<mapsto> video\<lparr>st_size := s'\<rparr>] ''lecture.mp4''"
    by (simp add: get_file_hash_def)
qed

end
